theory Spec2Isabelle
  imports Main "HOL-Library.Sublist"
begin

section \<open>Python values\<close>

text \<open>
  The dispatcher of \<^verbatim>\<open>main.py\<close> works on JSON-shaped Python values: the tool
  arguments, the bodies sent to the platform and the envelopes it answers with. A dict
  is an association list in insertion order, looked up by first match. Strings are
  sequences of code points below 256. Floating-point numbers are not modelled.
\<close>

datatype pyval =
    PNone
  | PBool bool
  | PInt int
  | PStr string
  | PList "pyval list"
  | PDict "(string \<times> pyval) list"

type_synonym pydict = "(string \<times> pyval) list"

text \<open>
  An exception is its class name and its message; \<^verbatim>\<open>str(e)\<close> is the message. \<open>Exn\<close> is
  an instance of a class that derives from \<^verbatim>\<open>Exception\<close>. \<open>BaseExn\<close> is an instance of a
  class that derives from \<^verbatim>\<open>BaseException\<close> only (\<^verbatim>\<open>asyncio.CancelledError\<close> raised at an
  \<^verbatim>\<open>await\<close>, \<^verbatim>\<open>KeyboardInterrupt\<close>, \<^verbatim>\<open>SystemExit\<close>), which \<^verbatim>\<open>except Exception\<close> does not
  catch. Everything the code itself raises is an \<open>Exn\<close>.
\<close>

datatype exn =
    Exn (exn_class: string) (exn_msg: string)
  | BaseExn (exn_class: string) (exn_msg: string)

text \<open>A name between single quotes, as the interpreter's error messages print one.\<close>

definition quoted :: "string \<Rightarrow> string" where
  "quoted s = [CHR 0x27] @ s @ [CHR 0x27]"

text \<open>\<^verbatim>\<open>type(v).__name__\<close>\<close>

fun type_name :: "pyval \<Rightarrow> string" where
  "type_name PNone = ''NoneType''"
| "type_name (PBool _) = ''bool''"
| "type_name (PInt _) = ''int''"
| "type_name (PStr _) = ''str''"
| "type_name (PList _) = ''list''"
| "type_name (PDict _) = ''dict''"

text \<open>Truthiness, as \<^verbatim>\<open>if v:\<close> and \<^verbatim>\<open>if not v:\<close> test it.\<close>

fun truthy :: "pyval \<Rightarrow> bool" where
  "truthy PNone = False"
| "truthy (PBool b) = b"
| "truthy (PInt i) = (i \<noteq> 0)"
| "truthy (PStr s) = (s \<noteq> [])"
| "truthy (PList xs) = (xs \<noteq> [])"
| "truthy (PDict kvs) = (kvs \<noteq> [])"

text \<open>\<^verbatim>\<open>a or b\<close>\<close>

definition py_or :: "pyval \<Rightarrow> pyval \<Rightarrow> pyval" where
  "py_or a b = (if truthy a then a else b)"

text \<open>\<^verbatim>\<open>isinstance(v, dict)\<close>\<close>

fun is_dict :: "pyval \<Rightarrow> bool" where
  "is_dict (PDict _) = True"
| "is_dict _ = False"

text \<open>\<^verbatim>\<open>d.get(k, default)\<close> on a dict: the default only when the key is absent.\<close>

definition dict_get :: "pydict \<Rightarrow> string \<Rightarrow> pyval \<Rightarrow> pyval" where
  "dict_get d k dflt = (case map_of d k of Some v \<Rightarrow> v | None \<Rightarrow> dflt)"

text \<open>
  Looking the method \<^verbatim>\<open>get\<close> up on a value: only a dict has it, anything else raises
  AttributeError. Every \<^verbatim>\<open>x.get(...)\<close> of the source goes through this check.
\<close>

definition as_dict :: "pyval \<Rightarrow> exn + pydict" where
  "as_dict v =
     (case v of
        PDict d \<Rightarrow> Inr d
      | _ \<Rightarrow> Inl (Exn ''AttributeError''
                 (quoted (type_name v) @ '' object has no attribute '' @ quoted ''get'')))"

subsection \<open>Strings\<close>

text \<open>Decimal digits, as \<^verbatim>\<open>str\<close> prints an \<^verbatim>\<open>int\<close>.\<close>

definition digit :: "nat \<Rightarrow> char" where
  "digit d = ''0123456789'' ! d"

fun decimal :: "nat \<Rightarrow> string" where
  "decimal n = (if n < 10 then [digit n] else decimal (n div 10) @ [digit (n mod 10)])"

declare decimal.simps [simp del]

definition int_str :: "int \<Rightarrow> string" where
  "int_str i = (if 0 \<le> i then decimal (nat i) else CHR ''-'' # decimal (nat (- i)))"

text \<open>
  \<^verbatim>\<open>str(v)\<close>, which is what an f-string field \<^verbatim>\<open>{v}\<close> renders. A string renders as
  itself; the rendering of a list or a dict (Python's \<^verbatim>\<open>repr\<close> of the container) is
  the parameter \<open>rp\<close>.
\<close>

definition py_str :: "(pyval \<Rightarrow> string) \<Rightarrow> pyval \<Rightarrow> string" where
  "py_str rp v =
     (case v of
        PNone \<Rightarrow> ''None''
      | PBool b \<Rightarrow> (if b then ''True'' else ''False'')
      | PInt i \<Rightarrow> int_str i
      | PStr s \<Rightarrow> s
      | _ \<Rightarrow> rp v)"

text \<open>Whitespace as \<^verbatim>\<open>str.strip()\<close> sees it, among the code points below 256.\<close>

definition is_space :: "char \<Rightarrow> bool" where
  "is_space c =
     (let n = (of_char c :: nat)
      in (9 \<le> n \<and> n \<le> 13) \<or> (28 \<le> n \<and> n \<le> 32) \<or> n = 133 \<or> n = 160)"

definition strip :: "string \<Rightarrow> string" where
  "strip s = rev (dropWhile is_space (rev (dropWhile is_space s)))"

text \<open>\<^verbatim>\<open>sub in s\<close>\<close>

fun contains :: "string \<Rightarrow> string \<Rightarrow> bool" where
  "contains sub [] = (sub = [])"
| "contains sub (c # cs) = (prefix sub (c # cs) \<or> contains sub cs)"

text \<open>
  \<^verbatim>\<open>s.split(sep)\<close> for a non-empty separator: the pieces between the non-overlapping
  occurrences of \<open>sep\<close>, found left to right. \<open>acc\<close> is the current piece, reversed.
  (Python raises ValueError on an empty separator; the source only splits on literals.)
\<close>

function split_from :: "string \<Rightarrow> string \<Rightarrow> string \<Rightarrow> string list" where
  "split_from sep acc [] = [rev acc]"
| "split_from sep acc (c # cs) =
     (if sep \<noteq> [] \<and> prefix sep (c # cs)
      then rev acc # split_from sep [] (drop (length sep) (c # cs))
      else split_from sep (c # acc) cs)"
  by pat_completeness auto
termination
  by (relation "measure (\<lambda>(sep, acc, s). length s)") auto

definition split :: "string \<Rightarrow> string \<Rightarrow> string list" where
  "split s sep = split_from sep [] s"

text \<open>\<^verbatim>\<open>xs[i]\<close> on a list of pieces: IndexError when out of range.\<close>

definition index :: "string list \<Rightarrow> nat \<Rightarrow> exn + string" where
  "index xs i =
     (if i < length xs then Inr (xs ! i)
      else Inl (Exn ''IndexError'' ''list index out of range''))"

text \<open>\<^verbatim>\<open>sep.join(xs)\<close> on strings.\<close>

fun join :: "string \<Rightarrow> string list \<Rightarrow> string" where
  "join sep [] = []"
| "join sep [x] = x"
| "join sep (x # y # ys) = x @ sep @ join sep (y # ys)"

text \<open>
  \<^verbatim>\<open>sep.join(vs)\<close> on values: TypeError at the first item that is not a string.
  \<open>i\<close> is the position of the head of the list.
\<close>

fun str_items :: "nat \<Rightarrow> pyval list \<Rightarrow> exn + string list" where
  "str_items i [] = Inr []"
| "str_items i (v # vs) =
     (case v of
        PStr s \<Rightarrow> (case str_items (Suc i) vs of Inl e \<Rightarrow> Inl e | Inr ss \<Rightarrow> Inr (s # ss))
      | _ \<Rightarrow> Inl (Exn ''TypeError''
                 (''sequence item '' @ decimal i @ '': expected str instance, ''
                  @ type_name v @ '' found'')))"

definition join_values :: "string \<Rightarrow> pyval list \<Rightarrow> exn + string" where
  "join_values sep vs =
     (case str_items 0 vs of Inl e \<Rightarrow> Inl e | Inr ss \<Rightarrow> Inr (join sep ss))"

subsection \<open>Containers\<close>

text \<open>
  \<^verbatim>\<open>for x in v\<close>: a list yields its items, a dict its keys, a string its characters;
  anything else raises TypeError.
\<close>

definition iterate :: "pyval \<Rightarrow> exn + pyval list" where
  "iterate v =
     (case v of
        PList xs \<Rightarrow> Inr xs
      | PDict kvs \<Rightarrow> Inr (map (\<lambda>kv. PStr (fst kv)) kvs)
      | PStr s \<Rightarrow> Inr (map (\<lambda>c. PStr [c]) s)
      | _ \<Rightarrow> Inl (Exn ''TypeError''
                 (quoted (type_name v) @ '' object is not iterable'')))"

text \<open>\<^verbatim>\<open>len(v)\<close>\<close>

definition py_len :: "pyval \<Rightarrow> exn + nat" where
  "py_len v =
     (case v of
        PList xs \<Rightarrow> Inr (length xs)
      | PDict kvs \<Rightarrow> Inr (length kvs)
      | PStr s \<Rightarrow> Inr (length s)
      | _ \<Rightarrow> Inl (Exn ''TypeError''
                 (''object of type '' @ quoted (type_name v) @ '' has no len()'')))"

text \<open>
  \<^verbatim>\<open>v[0]\<close>: the first item of a list or the first character of a string; a dict has no
  key \<^verbatim>\<open>0\<close> (its keys are strings), which is a KeyError whose message is \<^verbatim>\<open>0\<close>.
\<close>

definition first_item :: "pyval \<Rightarrow> exn + pyval" where
  "first_item v =
     (case v of
        PList xs \<Rightarrow>
          (case xs of
             [] \<Rightarrow> Inl (Exn ''IndexError'' ''list index out of range'')
           | x # _ \<Rightarrow> Inr x)
      | PStr s \<Rightarrow>
          (case s of
             [] \<Rightarrow> Inl (Exn ''IndexError'' ''string index out of range'')
           | c # _ \<Rightarrow> Inr (PStr [c]))
      | PDict kvs \<Rightarrow> Inl (Exn ''KeyError'' ''0'')
      | _ \<Rightarrow> Inl (Exn ''TypeError''
                 (quoted (type_name v) @ '' object is not subscriptable'')))"

section \<open>Effects\<close>

text \<open>
  What an invocation does to the outside world is a trace of events, in the order they
  happen: the HTTP requests of the record client and the prompts sent to the generative
  model, each with the answer it got, and the lines written by \<^verbatim>\<open>logger.error\<close>.
  \<open>JsonRequest\<close> is \<^verbatim>\<open>client.request(method, url, json=data)\<close> of \<^verbatim>\<open>_request\<close>,
  \<open>ParamsRequest\<close> is \<^verbatim>\<open>client.get(url, params=params)\<close> of \<^verbatim>\<open>list_records\<close>; the
  path is the URL after \<^verbatim>\<open>base_url/\<close>.

  The answer to a request is \<open>Inr body\<close>, the parsed \<^verbatim>\<open>response.json()\<close>, or \<open>Inl e\<close>
  when the transport, \<^verbatim>\<open>raise_for_status()\<close> or \<^verbatim>\<open>response.json()\<close> raises. The
  answer to a prompt is \<open>Inl e\<close> when \<^verbatim>\<open>generate_content\<close> raises, otherwise the
  response's \<^verbatim>\<open>.text\<close>, which is a string or raises in turn.
\<close>

datatype request =
    JsonRequest string string pyval
  | ParamsRequest string pyval

type_synonym answer = "exn + pyval"

type_synonym completion = "exn + (exn + string)"

datatype event =
    Http request answer
  | Generate string completion
  | Log string

text \<open>
  The surroundings of the dispatcher. \<open>configured\<close> is \<^verbatim>\<open>sn_client.configured\<close>.
  \<open>remote\<close> is the platform: its answer to a request, given the events so far.
  \<open>model\<close> is the module-level \<^verbatim>\<open>model\<close>: \<open>None\<close> without an API key, otherwise
  \<^verbatim>\<open>generate_content\<close>. \<open>json_loads\<close> and \<open>json_dumps\<close> are \<^verbatim>\<open>json.loads\<close> and
  \<^verbatim>\<open>json.dumps(_, indent=2)\<close>; \<open>repr\<close> renders containers (see \<open>py_str\<close>).
\<close>

record env =
  configured :: bool
  remote :: "event list \<Rightarrow> request \<Rightarrow> answer"
  model :: "(event list \<Rightarrow> string \<Rightarrow> completion) option"
  json_loads :: "string \<Rightarrow> exn + pyval"
  json_dumps :: "pyval \<Rightarrow> string"
  repr :: "pyval \<Rightarrow> string"

text \<open>A computation takes the trace so far and returns a value or a raised exception,
  with the trace extended by what it did.\<close>

type_synonym 'a io = "event list \<Rightarrow> (exn + 'a) \<times> event list"

definition ret :: "'a \<Rightarrow> 'a io" where
  "ret x = (\<lambda>tr. (Inr x, tr))"

definition raise :: "exn \<Rightarrow> 'a io" where
  "raise e = (\<lambda>tr. (Inl e, tr))"

definition lift :: "exn + 'a \<Rightarrow> 'a io" where
  "lift r = (\<lambda>tr. (r, tr))"

definition bind :: "'a io \<Rightarrow> ('a \<Rightarrow> 'b io) \<Rightarrow> 'b io" where
  "bind m f = (\<lambda>tr. case m tr of (Inl e, tr') \<Rightarrow> (Inl e, tr') | (Inr x, tr') \<Rightarrow> f x tr')"

text \<open>
  \<^verbatim>\<open>try: m  except Exception as e: h(e)\<close>. The handler runs on an \<open>Exn\<close>; a \<open>BaseExn\<close>
  goes through it untouched.
\<close>

definition try_except :: "'a io \<Rightarrow> (exn \<Rightarrow> 'a io) \<Rightarrow> 'a io" where
  "try_except m h = (\<lambda>tr.
     case m tr of
       (Inl (Exn c msg), tr') \<Rightarrow> h (Exn c msg) tr'
     | (Inl (BaseExn c msg), tr') \<Rightarrow> (Inl (BaseExn c msg), tr')
     | (Inr x, tr') \<Rightarrow> (Inr x, tr'))"

definition fstr :: "env \<Rightarrow> pyval \<Rightarrow> string" where
  "fstr E v = py_str (repr E) v"

text \<open>\<^verbatim>\<open>d.get(k)\<close>\<close>

definition get :: "pydict \<Rightarrow> string \<Rightarrow> pyval" where
  "get d k = dict_get d k PNone"

definition newline :: string where
  "newline = [CHR 0x0A]"

section \<open>The record client (\<^verbatim>\<open>server.py\<close>)\<close>

text \<open>
  \<^verbatim>\<open>response.raise_for_status(); return response.json().get("result", dflt)\<close>:
  what the client makes of an answer.
\<close>

definition unwrap :: "pyval \<Rightarrow> answer \<Rightarrow> exn + pyval" where
  "unwrap dflt ans =
     (case ans of
        Inl e \<Rightarrow> Inl e
      | Inr body \<Rightarrow>
          (case as_dict body of
             Inl e \<Rightarrow> Inl e
           | Inr d \<Rightarrow> Inr (dict_get d ''result'' dflt)))"

definition client_request :: "env \<Rightarrow> string \<Rightarrow> string \<Rightarrow> pyval \<Rightarrow> pyval io" where
  "client_request E method path data = (\<lambda>tr.
     if \<not> configured E
     then (Inl (Exn ''ValueError''
                 ''ServiceNow client not configured. Check environment variables.''), tr)
     else (let rq = JsonRequest method path data;
               ans = remote E tr rq
           in (unwrap PNone ans, tr @ [Http rq ans])))"

definition create_record :: "env \<Rightarrow> string \<Rightarrow> pyval \<Rightarrow> pyval io" where
  "create_record E table data = client_request E ''POST'' (''table/'' @ table) data"

definition get_record :: "env \<Rightarrow> string \<Rightarrow> pyval \<Rightarrow> pyval io" where
  "get_record E table sys_id =
     client_request E ''GET'' (''table/'' @ table @ ''/'' @ fstr E sys_id) PNone"

definition update_record :: "env \<Rightarrow> string \<Rightarrow> pyval \<Rightarrow> pyval \<Rightarrow> pyval io" where
  "update_record E table sys_id data =
     client_request E ''PATCH'' (''table/'' @ table @ ''/'' @ fstr E sys_id) data"

definition list_records :: "env \<Rightarrow> string \<Rightarrow> pyval \<Rightarrow> pyval io" where
  "list_records E table params = (\<lambda>tr.
     if \<not> configured E
     then (Inl (Exn ''ValueError'' ''ServiceNow client not configured.''), tr)
     else (let rq = ParamsRequest (''table/'' @ table) params;
               ans = remote E tr rq
           in (unwrap (PList []) ans, tr @ [Http rq ans])))"

text \<open>\<^verbatim>\<open>model.generate_content(prompt)\<close>: the value is the response's \<^verbatim>\<open>.text\<close>.\<close>

definition generate_content ::
  "(event list \<Rightarrow> string \<Rightarrow> completion) \<Rightarrow> string \<Rightarrow> (exn + string) io" where
  "generate_content m prompt = (\<lambda>tr.
     let ans = m tr prompt in (ans, tr @ [Generate prompt ans]))"

section \<open>The dispatcher (\<^verbatim>\<open>main.py\<close>)\<close>

text \<open>
  One definition per branch of \<^verbatim>\<open>handle_call_tool\<close>. The value of a branch is the text
  of the single \<^verbatim>\<open>TextContent\<close> it returns. Where a branch reads \<^verbatim>\<open>arguments.get\<close>, the
  first read raises AttributeError when \<^verbatim>\<open>arguments\<close> is not a dict.
\<close>

definition create_incident :: "env \<Rightarrow> pyval \<Rightarrow> string io" where
  "create_incident E arguments =
     bind (create_record E ''incident'' arguments) (\<lambda>result.
     bind (lift (as_dict result)) (\<lambda>r.
     ret (''Incident created successfully: '' @ fstr E (get r ''number'')
          @ '' (sys_id: '' @ fstr E (get r ''sys_id'') @ '')'')))"

definition kb_article_data :: "pydict \<Rightarrow> pyval" where
  "kb_article_data a = PDict
     [(''short_description'', get a ''short_description''),
      (''text'', get a ''article_body''),
      (''workflow_state'', dict_get a ''workflow_state'' (PStr ''draft'')),
      (''kb_knowledge_base'', get a ''kb_knowledge_base'')]"

definition create_kb_article :: "env \<Rightarrow> pyval \<Rightarrow> string io" where
  "create_kb_article E arguments =
     bind (lift (as_dict arguments)) (\<lambda>a.
     bind (create_record E ''kb_knowledge'' (kb_article_data a)) (\<lambda>result.
     bind (lift (as_dict result)) (\<lambda>r.
     ret (''KB Article created successfully: '' @ fstr E (get r ''number'')
          @ '' (sys_id: '' @ fstr E (get r ''sys_id'') @ '')''))))"

definition client_script_data :: "pydict \<Rightarrow> pyval" where
  "client_script_data a = PDict
     [(''name'', get a ''name''),
      (''table'', get a ''table''),
      (''script'', get a ''script''),
      (''type'', get a ''script_type''),
      (''field'', get a ''field_name''),
      (''active'', dict_get a ''active'' (PBool True))]"

definition create_client_script :: "env \<Rightarrow> pyval \<Rightarrow> string io" where
  "create_client_script E arguments =
     bind (lift (as_dict arguments)) (\<lambda>a.
     bind (create_record E ''sys_script_client'' (client_script_data a)) (\<lambda>result.
     bind (lift (as_dict result)) (\<lambda>r.
     ret (''Client Script created: '' @ fstr E (get r ''name'')
          @ '' (sys_id: '' @ fstr E (get r ''sys_id'') @ '')''))))"

definition business_rule_data :: "pydict \<Rightarrow> pyval" where
  "business_rule_data a = PDict
     [(''name'', get a ''name''),
      (''collection'', get a ''table''),
      (''script'', get a ''script''),
      (''when_toggle'', get a ''when''),
      (''action_insert'', dict_get a ''action_insert'' (PBool True)),
      (''action_update'', dict_get a ''action_update'' (PBool False)),
      (''action_delete'', dict_get a ''action_delete'' (PBool False)),
      (''action_query'', dict_get a ''action_query'' (PBool False)),
      (''active'', dict_get a ''active'' (PBool True))]"

definition create_business_rule :: "env \<Rightarrow> pyval \<Rightarrow> string io" where
  "create_business_rule E arguments =
     bind (lift (as_dict arguments)) (\<lambda>a.
     bind (create_record E ''sys_script'' (business_rule_data a)) (\<lambda>result.
     bind (lift (as_dict result)) (\<lambda>r.
     ret (''Business Rule created: '' @ fstr E (get r ''name'')
          @ '' (sys_id: '' @ fstr E (get r ''sys_id'') @ '')''))))"

definition sla_definition_data :: "env \<Rightarrow> pydict \<Rightarrow> pyval" where
  "sla_definition_data E a = PDict
     [(''name'', get a ''name''),
      (''collection'', get a ''table''),
      (''duration'', PStr (''PT'' @ fstr E (get a ''duration_seconds'') @ ''S'')),
      (''start_condition'', get a ''start_condition''),
      (''stop_condition'', get a ''stop_condition''),
      (''pause_condition'', get a ''pause_condition'')]"

definition create_sla_definition :: "env \<Rightarrow> pyval \<Rightarrow> string io" where
  "create_sla_definition E arguments =
     bind (lift (as_dict arguments)) (\<lambda>a.
     bind (create_record E ''contract_sla'' (sla_definition_data E a)) (\<lambda>result.
     bind (lift (as_dict result)) (\<lambda>r.
     ret (''SLA Definition created: '' @ fstr E (get r ''name'')
          @ '' (sys_id: '' @ fstr E (get r ''sys_id'') @ '')''))))"

subsection \<open>\<^verbatim>\<open>create_record_producer\<close>\<close>

definition producer_data :: "pydict \<Rightarrow> pyval" where
  "producer_data a = PDict
     [(''name'', get a ''name''),
      (''table_name'', get a ''table_name''),
      (''short_description'', get a ''short_description''),
      (''category'', get a ''category_sys_id''),
      (''script'', get a ''script'')]"

text \<open>\<^verbatim>\<open>6 if t == "string" else 1 if t == "choice" else 2\<close>\<close>

definition var_type_code :: "pyval \<Rightarrow> int" where
  "var_type_code t = (if t = PStr ''string'' then 6 else if t = PStr ''choice'' then 1 else 2)"

definition producer_var_data :: "pyval \<Rightarrow> pydict \<Rightarrow> pyval" where
  "producer_var_data producer_id var = PDict
     [(''cat_item'', producer_id),
      (''name'', get var ''name''),
      (''question_text'', get var ''label''),
      (''type'', PInt (var_type_code (get var ''type''))),
      (''mandatory'', dict_get var ''mandatory'' (PBool False))]"

text \<open>The loop over the variables; \<open>created_vars\<close> is the list it appends to.\<close>

fun producer_variables :: "env \<Rightarrow> pyval \<Rightarrow> pyval list \<Rightarrow> pyval list \<Rightarrow> pyval list io" where
  "producer_variables E producer_id [] created_vars = ret created_vars"
| "producer_variables E producer_id (var # vars) created_vars =
     bind (lift (as_dict var)) (\<lambda>v.
     bind (create_record E ''item_option_new'' (producer_var_data producer_id v)) (\<lambda>v_res.
     bind (lift (as_dict v_res)) (\<lambda>vr.
     producer_variables E producer_id vars (created_vars @ [get vr ''name'']))))"

definition create_record_producer :: "env \<Rightarrow> pyval \<Rightarrow> string io" where
  "create_record_producer E arguments =
     bind (lift (as_dict arguments)) (\<lambda>a.
     bind (create_record E ''sc_cat_item_producer'' (producer_data a)) (\<lambda>producer.
     bind (lift (as_dict producer)) (\<lambda>p.
     bind (lift (iterate (dict_get a ''variables'' (PList [])))) (\<lambda>vars.
     bind (producer_variables E (get p ''sys_id'') vars []) (\<lambda>created_vars.
     bind (lift (join_values '', '' created_vars)) (\<lambda>names.
     ret (''Record Producer created: '' @ fstr E (get p ''name'')
          @ '' (sys_id: '' @ fstr E (get p ''sys_id'') @ '') with variables: '' @ names)))))))"

subsection \<open>\<^verbatim>\<open>create_variable_set\<close>\<close>

definition variable_set_data :: "pydict \<Rightarrow> pyval" where
  "variable_set_data a = PDict
     [(''name'', get a ''name''),
      (''description'', get a ''description'')]"

definition set_var_data :: "pyval \<Rightarrow> pydict \<Rightarrow> pyval" where
  "set_var_data set_id var = PDict
     [(''variable_set'', set_id),
      (''name'', get var ''name''),
      (''question_text'', get var ''label''),
      (''mandatory'', dict_get var ''mandatory'' (PBool False))]"

fun set_variables :: "env \<Rightarrow> pyval \<Rightarrow> pyval list \<Rightarrow> unit io" where
  "set_variables E set_id [] = ret ()"
| "set_variables E set_id (var # vars) =
     bind (lift (as_dict var)) (\<lambda>v.
     bind (create_record E ''item_option_new'' (set_var_data set_id v)) (\<lambda>_.
     set_variables E set_id vars))"

definition create_variable_set :: "env \<Rightarrow> pyval \<Rightarrow> string io" where
  "create_variable_set E arguments =
     bind (lift (as_dict arguments)) (\<lambda>a.
     bind (create_record E ''item_option_new_set'' (variable_set_data a)) (\<lambda>vset.
     bind (lift (as_dict vset)) (\<lambda>s.
     bind (lift (iterate (dict_get a ''variables'' (PList [])))) (\<lambda>vars.
     bind (set_variables E (get s ''sys_id'') vars) (\<lambda>_.
     ret (''Variable Set created: '' @ fstr E (get s ''name'')
          @ '' (sys_id: '' @ fstr E (get s ''sys_id'') @ '')''))))))"

subsection \<open>\<^verbatim>\<open>get_incident\<close>, \<^verbatim>\<open>update_incident\<close>, \<^verbatim>\<open>list_incidents\<close>\<close>

definition number_query :: "env \<Rightarrow> pyval \<Rightarrow> pyval" where
  "number_query E number = PDict
     [(''sysparm_query'', PStr (''number='' @ fstr E number)),
      (''sysparm_limit'', PInt 1)]"

text \<open>
  \<^verbatim>\<open>result.get(k, {}).get('display_value', 'Unassigned') if
  isinstance(result.get(k), dict) else 'Unassigned'\<close>
\<close>

definition display_value :: "env \<Rightarrow> pydict \<Rightarrow> string \<Rightarrow> string" where
  "display_value E result k =
     (case get result k of
        PDict g \<Rightarrow> fstr E (dict_get g ''display_value'' (PStr ''Unassigned''))
      | _ \<Rightarrow> ''Unassigned'')"

definition incident_details :: "env \<Rightarrow> pydict \<Rightarrow> string list" where
  "incident_details E result =
     [''Number: '' @ fstr E (dict_get result ''number'' (PStr ''N/A'')),
      ''State: '' @ fstr E (dict_get result ''incident_state''
                              (dict_get result ''state'' (PStr ''N/A''))),
      ''Priority: '' @ fstr E (dict_get result ''priority'' (PStr ''N/A'')),
      ''Short Description: '' @ fstr E (dict_get result ''short_description'' (PStr ''N/A'')),
      ''Assignment Group: '' @ display_value E result ''assignment_group'',
      ''Assigned To: '' @ display_value E result ''assigned_to'',
      ''Updated: '' @ fstr E (dict_get result ''sys_updated_on'' (PStr ''N/A''))]"

text \<open>The part of \<^verbatim>\<open>get_incident\<close> after \<^verbatim>\<open>result\<close> is bound, on either path.\<close>

definition render_incident :: "env \<Rightarrow> pyval \<Rightarrow> pyval \<Rightarrow> pyval \<Rightarrow> string" where
  "render_incident E number sys_id result =
     (case result of
        PDict r \<Rightarrow> join newline (incident_details E r)
      | _ \<Rightarrow> ''Error: Unexpected response format from ServiceNow for incident ''
             @ fstr E (py_or number sys_id) @ ''. Got: '' @ fstr E result)"

definition get_incident :: "env \<Rightarrow> pyval \<Rightarrow> string io" where
  "get_incident E arguments =
     bind (lift (as_dict arguments)) (\<lambda>a.
       let number = get a ''number''; sys_id = get a ''sys_id''
       in if truthy sys_id
          then bind (get_record E ''incident'' sys_id) (\<lambda>result.
               ret (render_incident E number sys_id result))
          else bind (list_records E ''incident'' (number_query E number)) (\<lambda>results.
               if \<not> truthy results
               then ret (''Incident '' @ fstr E number @ '' not found.'')
               else bind (lift (first_item results)) (\<lambda>result.
                    ret (render_incident E number sys_id result))))"

definition update_incident :: "env \<Rightarrow> pyval \<Rightarrow> string io" where
  "update_incident E arguments =
     bind (lift (as_dict arguments)) (\<lambda>a.
       let number = get a ''number''
       in bind (list_records E ''incident'' (number_query E number)) (\<lambda>results.
          if \<not> truthy results
          then ret (''Incident '' @ fstr E number @ '' not found.'')
          else bind (lift (first_item results)) (\<lambda>r0.
               bind (lift (as_dict r0)) (\<lambda>r.
               let sys_id = get r ''sys_id'';
                   update_data = PDict (filter (\<lambda>kv. fst kv \<noteq> ''number'') a)
               in bind (update_record E ''incident'' sys_id update_data) (\<lambda>result.
                  ret (''Incident '' @ fstr E number @ '' updated successfully.''))))))"

definition incident_query :: "env \<Rightarrow> pyval \<Rightarrow> pyval \<Rightarrow> string" where
  "incident_query E priority state =
     (let query_parts =
            (if truthy priority then [''priority='' @ fstr E priority] else [])
            @ (if truthy state then [''state='' @ fstr E state] else [])
      in if query_parts \<noteq> [] then join ''^'' query_parts else ''ORDERBYDESCsys_created_on'')"

text \<open>The loop that appends one line per listed record.\<close>

fun incident_lines :: "env \<Rightarrow> pyval list \<Rightarrow> exn + string list" where
  "incident_lines E [] = Inr []"
| "incident_lines E (r # rs) =
     (case as_dict r of
        Inl e \<Rightarrow> Inl e
      | Inr d \<Rightarrow>
          (case incident_lines E rs of
             Inl e \<Rightarrow> Inl e
           | Inr ls \<Rightarrow>
               Inr ((''- '' @ fstr E (get d ''number'') @ '': ''
                     @ fstr E (get d ''short_description'')
                     @ '' (State: '' @ fstr E (get d ''state'')
                     @ '', Priority: '' @ fstr E (get d ''priority'') @ '')'') # ls)))"

definition list_incidents :: "env \<Rightarrow> pyval \<Rightarrow> string io" where
  "list_incidents E arguments =
     bind (lift (as_dict arguments)) (\<lambda>a.
       let limit = dict_get a ''limit'' (PInt 10);
           priority = get a ''priority'';
           state = get a ''state'';
           query = incident_query E priority state
       in bind (list_records E ''incident''
                  (PDict [(''sysparm_query'', PStr query), (''sysparm_limit'', limit)]))
            (\<lambda>results.
          bind (lift (py_len results)) (\<lambda>n.
          bind (lift (iterate results)) (\<lambda>rs.
          bind (lift (incident_lines E rs)) (\<lambda>ls.
          ret (join newline ((''Found '' @ decimal n @ '' recent incidents:'') # ls)))))))"

subsection \<open>\<^verbatim>\<open>smart_incident\<close>, \<^verbatim>\<open>smart_kb_generator\<close>\<close>

definition not_configured_text :: string where
  "not_configured_text = ''Gemini AI is not configured. Please set GEMINI_API_KEY.''"

definition incident_prompt :: "env \<Rightarrow> pydict \<Rightarrow> string" where
  "incident_prompt E a =
     newline
     @ ''            Analyze the following issue report and extract structured details for a ServiceNow incident.''
     @ newline
     @ ''            Output ONLY a JSON object with: short_description, description, urgency (1, 2, or 3), impact (1, 2, or 3).''
     @ newline
     @ ''            '' @ newline
     @ ''            Report: '' @ fstr E (get a ''unstructured_text'') @ newline
     @ ''            '' @ newline
     @ ''            Default to urgency 3 and impact 3 if not clear.'' @ newline
     @ ''            JSON:'' @ newline
     @ ''            ''"

definition fence :: string where
  "fence = replicate 3 (CHR 0x60)"

definition json_fence :: string where
  "json_fence = fence @ ''json''"

text \<open>
  The stripping of code fences: \<^verbatim>\<open>text.split(f)[1].split(fence)[0].strip()\<close>, with \<open>f\<close>
  the opening fence that \<^verbatim>\<open>text\<close> contains, and \<^verbatim>\<open>text\<close> itself without a fence.
\<close>

definition between_fences :: "string \<Rightarrow> string \<Rightarrow> exn + string" where
  "between_fences opening text =
     (case index (split text opening) 1 of
        Inl e \<Rightarrow> Inl e
      | Inr rest \<Rightarrow>
          (case index (split rest fence) 0 of
             Inl e \<Rightarrow> Inl e
           | Inr body \<Rightarrow> Inr (strip body)))"

definition extract_json :: "string \<Rightarrow> exn + string" where
  "extract_json text =
     (if contains json_fence text then between_fences json_fence text
      else if contains fence text then between_fences fence text
      else Inr text)"

text \<open>
  The words in which the extraction is stated: the part of \<open>s\<close> before the first
  occurrence of \<open>sep\<close> (all of \<open>s\<close> when there is none), and the part after that
  occurrence (nothing when there is none).
\<close>

fun before_first :: "string \<Rightarrow> string \<Rightarrow> string" where
  "before_first sep [] = []"
| "before_first sep (c # cs) = (if prefix sep (c # cs) then [] else c # before_first sep cs)"

fun after_first :: "string \<Rightarrow> string \<Rightarrow> string" where
  "after_first sep [] = []"
| "after_first sep (c # cs) =
     (if prefix sep (c # cs) then drop (length sep) (c # cs) else after_first sep cs)"

text \<open>The body of the \<^verbatim>\<open>try\<close> of \<^verbatim>\<open>smart_incident\<close>, and its \<^verbatim>\<open>except\<close> handler.\<close>

definition smart_incident_try :: "env \<Rightarrow> exn + string \<Rightarrow> string io" where
  "smart_incident_try E response_text =
     bind (lift response_text) (\<lambda>raw.
     bind (lift (extract_json (strip raw))) (\<lambda>text.
     bind (lift (json_loads E text)) (\<lambda>structured_data.
     bind (create_record E ''incident'' structured_data) (\<lambda>result.
     bind (lift (as_dict result)) (\<lambda>r.
     ret (''Smart Incident created: '' @ fstr E (get r ''number'') @ newline
          @ ''Extracted Data: '' @ json_dumps E structured_data))))))"

definition smart_incident_except :: "exn + string \<Rightarrow> exn \<Rightarrow> string io" where
  "smart_incident_except response_text e =
     bind (lift response_text) (\<lambda>raw.
     ret (''Failed to parse AI response: '' @ exn_msg e @ newline
          @ ''Raw Response: '' @ raw))"

definition smart_incident :: "env \<Rightarrow> pyval \<Rightarrow> string io" where
  "smart_incident E arguments =
     (case model E of
        None \<Rightarrow> ret not_configured_text
      | Some m \<Rightarrow>
          bind (lift (as_dict arguments)) (\<lambda>a.
          bind (generate_content m (incident_prompt E a)) (\<lambda>response_text.
          try_except (smart_incident_try E response_text)
                     (smart_incident_except response_text))))"

definition kb_prompt :: "env \<Rightarrow> pydict \<Rightarrow> string" where
  "kb_prompt E a =
     newline
     @ ''            Convert the following content into a professional ServiceNow Knowledge Base article.''
     @ newline
     @ ''            Format the output in HTML. Include a clear title and structured body (h1, p, ul/li).''
     @ newline
     @ ''            '' @ newline
     @ ''            Target Audience: ''
     @ fstr E (dict_get a ''target_audience'' (PStr ''General Users'')) @ newline
     @ ''            Source: '' @ fstr E (get a ''source_content'') @ newline
     @ ''            '' @ newline
     @ ''            Output ONLY the HTML body content.'' @ newline
     @ ''            ''"

definition title_prompt :: "string \<Rightarrow> string" where
  "title_prompt kb_body =
     ''Generate a short, concise title (max 60 chars) for this KB article content: ''
     @ take 500 kb_body"

definition smart_kb_generator :: "env \<Rightarrow> pyval \<Rightarrow> string io" where
  "smart_kb_generator E arguments =
     (case model E of
        None \<Rightarrow> ret not_configured_text
      | Some m \<Rightarrow>
          bind (lift (as_dict arguments)) (\<lambda>a.
          bind (generate_content m (kb_prompt E a)) (\<lambda>response_text.
          bind (lift response_text) (\<lambda>raw.
          let kb_body = strip raw
          in bind (generate_content m (title_prompt kb_body)) (\<lambda>title_text.
             bind (lift title_text) (\<lambda>raw_title.
             let title = filter (\<lambda>c. c \<noteq> CHR 0x22) (strip raw_title);
                 data = PDict [(''short_description'', PStr title),
                               (''text'', PStr kb_body),
                               (''workflow_state'', PStr ''draft'')]
             in bind (create_record E ''kb_knowledge'' data) (\<lambda>result.
                bind (lift (as_dict result)) (\<lambda>r.
                ret (''Smart KB Article created as Draft: '' @ fstr E (get r ''number'')
                     @ newline @ ''Title: '' @ title)))))))))"

subsection \<open>\<^verbatim>\<open>handle_call_tool\<close>\<close>

text \<open>The names declared by \<^verbatim>\<open>handle_list_tools\<close> in \<^verbatim>\<open>server.py\<close>, in its order.\<close>

definition tool_names :: "string list" where
  "tool_names =
     [''create_incident'', ''create_kb_article'', ''create_client_script'',
      ''create_business_rule'', ''create_sla_definition'', ''create_record_producer'',
      ''create_variable_set'', ''get_incident'', ''list_incidents'', ''update_incident'',
      ''smart_incident'', ''smart_kb_generator'']"

text \<open>The body of the outer \<^verbatim>\<open>try\<close>: the chain of comparisons on the tool name.\<close>

definition tool_body :: "env \<Rightarrow> string \<Rightarrow> pyval \<Rightarrow> string io" where
  "tool_body E name arguments =
     (if name = ''create_incident'' then create_incident E arguments
      else if name = ''create_kb_article'' then create_kb_article E arguments
      else if name = ''create_client_script'' then create_client_script E arguments
      else if name = ''create_business_rule'' then create_business_rule E arguments
      else if name = ''create_sla_definition'' then create_sla_definition E arguments
      else if name = ''create_record_producer'' then create_record_producer E arguments
      else if name = ''create_variable_set'' then create_variable_set E arguments
      else if name = ''get_incident'' then get_incident E arguments
      else if name = ''update_incident'' then update_incident E arguments
      else if name = ''list_incidents'' then list_incidents E arguments
      else if name = ''smart_incident'' then smart_incident E arguments
      else if name = ''smart_kb_generator'' then smart_kb_generator E arguments
      else raise (Exn ''ValueError'' (''Unknown tool: '' @ name)))"

text \<open>
  The outer \<^verbatim>\<open>except Exception as e\<close>: one line to the log, then the error as the text.
\<close>

definition top_level_except :: "string \<Rightarrow> exn \<Rightarrow> string io" where
  "top_level_except name e = (\<lambda>tr.
     (Inr (''Error: '' @ exn_msg e),
      tr @ [Log (''Error executing tool '' @ name @ '': '' @ exn_msg e)]))"

definition handle_call_tool :: "env \<Rightarrow> string \<Rightarrow> pyval \<Rightarrow> string io" where
  "handle_call_tool E name arguments =
     try_except (tool_body E name arguments) (top_level_except name)"

text \<open>One invocation, from an empty trace: what it returns and what it did.\<close>

definition invoke :: "env \<Rightarrow> string \<Rightarrow> pyval \<Rightarrow> (exn + string) \<times> event list" where
  "invoke E name arguments = handle_call_tool E name arguments []"

definition requests :: "event list \<Rightarrow> request list" where
  "requests tr = concat (map (\<lambda>ev. case ev of Http rq _ \<Rightarrow> [rq] | _ \<Rightarrow> []) tr)"

definition log_lines :: "event list \<Rightarrow> string list" where
  "log_lines tr = concat (map (\<lambda>ev. case ev of Log l \<Rightarrow> [l] | _ \<Rightarrow> []) tr)"

section \<open>Observations\<close>

text \<open>The JSON bodies posted to a table, in the order of the trace.\<close>

fun posted_to :: "string \<Rightarrow> event \<Rightarrow> pyval list" where
  "posted_to table (Http (JsonRequest m p d) ans) =
     (if m = ''POST'' \<and> p = ''table/'' @ table then [d] else [])"
| "posted_to table _ = []"

definition posted :: "string \<Rightarrow> event list \<Rightarrow> pyval list" where
  "posted table tr = concat (map (posted_to table) tr)"

text \<open>A field of a body that is a dict.\<close>

definition item :: "string \<Rightarrow> pyval \<Rightarrow> pyval" where
  "item k v = (case v of PDict d \<Rightarrow> get d k | _ \<Rightarrow> PNone)"

text \<open>A field of the record an answer carries under \<^verbatim>\<open>result\<close>.\<close>

definition result_field :: "string \<Rightarrow> answer \<Rightarrow> pyval" where
  "result_field k ans = (case unwrap PNone ans of Inr v \<Rightarrow> item k v | Inl e \<Rightarrow> PNone)"

text \<open>A computation that writes nothing to the log.\<close>

definition quiet :: "'a io \<Rightarrow> bool" where
  "quiet m = (\<forall>tr. log_lines (snd (m tr)) = log_lines tr)"

text \<open>
  A computation that a failed request ends: whenever one of the requests it sent (\<open>new\<close>
  is what it added to the trace) was answered with an error, or with a body that is not a
  dict, that request is the last thing it did and its error is what the computation
  raises.
\<close>

definition strict :: "'a io \<Rightarrow> bool" where
  "strict m =
     (\<forall>tr r tr'. m tr = (r, tr') \<longrightarrow>
        (\<exists>new. tr' = tr @ new
           \<and> (\<forall>rq ans e. Http rq ans \<in> set new \<and> unwrap PNone ans = Inl e
                 \<longrightarrow> r = Inl e \<and> last new = Http rq ans)))"

text \<open>
  The event of creating one variable of a record producer or of a variable set: the POST
  to \<^verbatim>\<open>item_option_new\<close> with the body the loop builds, and its answer.
\<close>

definition producer_child :: "pyval \<Rightarrow> pydict \<Rightarrow> answer \<Rightarrow> event" where
  "producer_child pid v ans =
     Http (JsonRequest ''POST'' ''table/item_option_new'' (producer_var_data pid v)) ans"

definition set_child :: "pyval \<Rightarrow> pydict \<Rightarrow> answer \<Rightarrow> event" where
  "set_child sid v ans =
     Http (JsonRequest ''POST'' ''table/item_option_new'' (set_var_data sid v)) ans"

section \<open>Example surroundings\<close>

text \<open>
  A platform for the examples: a list request is answered with \<open>listing\<close>; a request
  with a dict as body is answered with that dict as the record, under a \<^verbatim>\<open>sys_id\<close> made
  of the number of events so far; any other request with an empty envelope.
\<close>

definition demo_remote :: "pyval \<Rightarrow> event list \<Rightarrow> request \<Rightarrow> answer" where
  "demo_remote listing tr rq =
     (case rq of
        ParamsRequest p q \<Rightarrow> Inr (PDict [(''result'', listing)])
      | JsonRequest m p d \<Rightarrow>
          (case d of
             PDict kvs \<Rightarrow>
               Inr (PDict [(''result'',
                      PDict ((''sys_id'', PStr (''id'' @ decimal (length tr))) # kvs))])
           | _ \<Rightarrow> Inr (PDict [])))"

text \<open>A parser for the examples: it knows the empty object and rejects anything else.\<close>

definition demo_loads :: "string \<Rightarrow> exn + pyval" where
  "demo_loads s =
     (if s = ''{}'' then Inr (PDict [])
      else Inl (Exn ''JSONDecodeError'' ''Expecting value: line 1 column 1 (char 0)''))"

text \<open>
  A JSON object whose only string holds three backticks:
  \<^verbatim>\<open>{"d": "x```y"}\<close>.
\<close>

definition backticks_inside :: string where
  "backticks_inside =
     ''{'' @ [CHR 0x22] @ ''d'' @ [CHR 0x22] @ '': '' @ [CHR 0x22] @ ''x'' @ fence @ ''y''
     @ [CHR 0x22] @ ''}''"

text \<open>Arguments for the examples of the create tools, one dict for all of them.\<close>

definition create_args :: pydict where
  "create_args =
     [(''name'', PStr ''laptop''),
      (''short_description'', PStr ''VPN''),
      (''article_body'', PStr ''Restart''),
      (''table'', PStr ''incident''),
      (''script'', PStr ''s''),
      (''script_type'', PStr ''onLoad''),
      (''field_name'', PStr ''state''),
      (''when'', PStr ''before''),
      (''duration_seconds'', PInt 3600),
      (''category_sys_id'', PStr ''c1''),
      (''variables'', PList [PDict [(''name'', PStr ''color''), (''label'', PStr ''Colour''),
                                   (''type'', PStr ''choice'')]])]"

text \<open>The model of the examples answers every prompt with \<open>reply\<close>.\<close>

definition demo_env :: "pyval \<Rightarrow> string \<Rightarrow> env" where
  "demo_env listing reply =
     \<lparr>configured = True,
      remote = demo_remote listing,
      model = Some (\<lambda>tr prompt. Inr (Inr reply)),
      json_loads = demo_loads,
      json_dumps = (\<lambda>v. ''{}''),
      repr = (\<lambda>v. ''...'')\<rparr>"

section \<open>Running the model\<close>

lemma bind_ret [simp]: "bind (ret x) f = f x"
  by (simp add: bind_def ret_def)

lemma bind_raise [simp]: "bind (raise e) f = raise e"
  by (simp add: bind_def raise_def)

lemma bind_lift_Inr [simp]: "bind (lift (Inr x)) f = f x"
  by (simp add: bind_def lift_def)

lemma bind_lift_Inl [simp]: "bind (lift (Inl e)) f = raise e"
  by (simp add: bind_def lift_def raise_def)

lemma bind_run: "bind m f tr = (case m tr of (Inl e, tr') \<Rightarrow> (Inl e, tr') | (Inr x, tr') \<Rightarrow> f x tr')"
  by (simp add: bind_def)

lemma ret_run [simp]: "ret x tr = (Inr x, tr)"
  by (simp add: ret_def)

lemma raise_run [simp]: "raise e tr = (Inl e, tr)"
  by (simp add: raise_def)

lemma as_dict_PDict [simp]: "as_dict (PDict d) = Inr d"
  by (simp add: as_dict_def)

lemma fstr_PStr [simp]: "fstr E (PStr s) = s"
  by (simp add: fstr_def py_str_def)

lemma requests_simps [simp]:
  "requests [] = []"
  "requests (Http rq ans # tr) = rq # requests tr"
  "requests (Generate p c # tr) = requests tr"
  "requests (Log l # tr) = requests tr"
  "requests (tr @ tr') = requests tr @ requests tr'"
  by (simp_all add: requests_def)

lemma log_lines_simps [simp]:
  "log_lines [] = []"
  "log_lines (Http rq ans # tr) = log_lines tr"
  "log_lines (Generate p c # tr) = log_lines tr"
  "log_lines (Log l # tr) = l # log_lines tr"
  "log_lines (tr @ tr') = log_lines tr @ log_lines tr'"
  by (simp_all add: log_lines_def)

text \<open>What one call of the client does.\<close>

lemma client_request_run:
  "configured E \<Longrightarrow>
   client_request E m p d tr =
     (unwrap PNone (remote E tr (JsonRequest m p d)),
      tr @ [Http (JsonRequest m p d) (remote E tr (JsonRequest m p d))])"
  by (simp add: client_request_def Let_def)

lemma list_records_run:
  "configured E \<Longrightarrow>
   list_records E table params tr =
     (unwrap (PList []) (remote E tr (ParamsRequest (''table/'' @ table) params)),
      tr @ [Http (ParamsRequest (''table/'' @ table) params)
                 (remote E tr (ParamsRequest (''table/'' @ table) params))])"
  by (simp add: list_records_def Let_def)

lemma invoke_run:
  "invoke E name arguments =
     (case tool_body E name arguments [] of
        (Inl (Exn c msg), tr) \<Rightarrow>
          (Inr (''Error: '' @ msg),
           tr @ [Log (''Error executing tool '' @ name @ '': '' @ msg)])
      | (Inl (BaseExn c msg), tr) \<Rightarrow> (Inl (BaseExn c msg), tr)
      | (Inr t, tr) \<Rightarrow> (Inr t, tr))"
  by (simp add: invoke_def handle_call_tool_def try_except_def top_level_except_def
      split: prod.splits sum.splits exn.splits)

lemma requests_invoke:
  "requests (snd (invoke E name arguments)) = requests (snd (tool_body E name arguments []))"
  by (simp add: invoke_run split: prod.splits sum.splits exn.splits)

lemmas run_defs = invoke_run tool_body_def bind_def lift_def create_record_def get_record_def
  update_record_def client_request_run list_records_run

lemma demo_simps [simp]:
  "configured (demo_env l r) = True"
  "remote (demo_env l r) = demo_remote l"
  "model (demo_env l r) = Some (\<lambda>tr prompt. Inr (Inr r))"
  "json_loads (demo_env l r) = demo_loads"
  by (simp_all add: demo_env_def)

lemma unwrap_Inr [simp]: "unwrap dflt (Inr (PDict body)) = Inr (dict_get body ''result'' dflt)"
  by (simp add: unwrap_def)

section \<open>Incidents\<close>

text \<open>
  Claim C4. \<^verbatim>\<open>get_incident\<close> with a number \<open>n\<close> and no \<^verbatim>\<open>sys_id\<close> sends exactly one
  request, the list call on \<^verbatim>\<open>incident\<close> with the query \<^verbatim>\<open>number=n\<close> and the limit 1.
  When the answer carries an empty list, the invocation returns the text
  \<^verbatim>\<open>Incident n not found.\<close>, and the trace holds that request only: nothing was raised,
  nothing was logged.
\<close>

theorem get_incident_by_number:
  assumes "configured E"
    and "map_of a ''number'' = Some (PStr n)"
    and "map_of a ''sys_id'' = None"
    and "q = ParamsRequest ''table/incident''
               (PDict [(''sysparm_query'', PStr (''number='' @ n)), (''sysparm_limit'', PInt 1)])"
  shows "requests (snd (invoke E ''get_incident'' (PDict a))) = [q]
       \<and> (\<forall>body. remote E [] q = Inr (PDict body)
              \<and> dict_get body ''result'' (PList []) = PList []
            \<longrightarrow> invoke E ''get_incident'' (PDict a) =
                  (Inr (''Incident '' @ n @ '' not found.''), [Http q (remote E [] q)]))"
  using assms
  by (auto simp add: run_defs get_incident_def number_query_def get_def dict_get_def Let_def
      split: sum.splits exn.splits)

theorem get_incident_by_number_witness:
  "invoke (demo_env (PList []) []) ''get_incident'' (PDict [(''number'', PStr ''INC0000001'')]) =
     (Inr ''Incident INC0000001 not found.'',
      [Http (ParamsRequest ''table/incident''
               (PDict [(''sysparm_query'', PStr ''number=INC0000001''),
                       (''sysparm_limit'', PInt 1)]))
            (Inr (PDict [(''result'', PList [])]))])"
  using get_incident_by_number [of "demo_env (PList []) []" "[(''number'', PStr ''INC0000001'')]"
      "''INC0000001''" "ParamsRequest ''table/incident''
               (PDict [(''sysparm_query'', PStr ''number=INC0000001''),
                       (''sysparm_limit'', PInt 1)])"]
  by (simp add: demo_remote_def dict_get_def)

text \<open>
  Claim C9. With a configured client, \<^verbatim>\<open>get_incident\<close> sends exactly one request: the GET
  on the identifier when \<^verbatim>\<open>sys_id\<close> is truthy (whatever \<^verbatim>\<open>number\<close> is), and the list call
  by number only when \<^verbatim>\<open>sys_id\<close> is not: absent, \<^verbatim>\<open>None\<close> or empty.
\<close>

theorem get_incident_sys_id_precedence:
  assumes "configured E"
  shows "requests (snd (invoke E ''get_incident'' (PDict a))) =
          (if truthy (get a ''sys_id'')
           then [JsonRequest ''GET'' (''table/incident/'' @ fstr E (get a ''sys_id'')) PNone]
           else [ParamsRequest ''table/incident''
                   (PDict [(''sysparm_query'', PStr (''number='' @ fstr E (get a ''number''))),
                           (''sysparm_limit'', PInt 1)])])"
  using assms
  by (auto simp add: run_defs get_incident_def number_query_def Let_def
      split: sum.splits exn.splits)

theorem get_incident_sys_id_precedence_witness:
  "requests (snd (invoke (demo_env (PList []) []) ''get_incident''
      (PDict [(''number'', PStr ''INC0000001''), (''sys_id'', PStr ''abc123'')]))) =
     [JsonRequest ''GET'' ''table/incident/abc123'' PNone]
   \<and> requests (snd (invoke (demo_env (PList []) []) ''get_incident''
      (PDict [(''number'', PStr ''INC0000001''), (''sys_id'', PStr [])]))) =
     [ParamsRequest ''table/incident''
        (PDict [(''sysparm_query'', PStr ''number=INC0000001''), (''sysparm_limit'', PInt 1)])]"
  using get_incident_sys_id_precedence [of "demo_env (PList []) []"
      "[(''number'', PStr ''INC0000001''), (''sys_id'', PStr ''abc123'')]"]
    get_incident_sys_id_precedence [of "demo_env (PList []) []"
      "[(''number'', PStr ''INC0000001''), (''sys_id'', PStr [])]"]
  by (simp add: get_def dict_get_def)

text \<open>
  Claim C5. \<^verbatim>\<open>list_incidents\<close> sends one list call whose limit is the caller's \<^verbatim>\<open>limit\<close>,
  10 when absent, and whose query joins with \<^verbatim>\<open>^\<close> the equality clauses of the non-empty
  ones among \<^verbatim>\<open>priority\<close> and \<^verbatim>\<open>state\<close>, or is \<^verbatim>\<open>ORDERBYDESCsys_created_on\<close> when there
  is none. With priority \<^verbatim>\<open>1\<close> and state \<^verbatim>\<open>2\<close> the query is \<^verbatim>\<open>priority=1^state=2\<close>.
\<close>

theorem list_incidents_query:
  assumes "configured E"
  shows "requests (snd (invoke E ''list_incidents'' (PDict a))) =
           [ParamsRequest ''table/incident''
              (PDict [(''sysparm_query'', PStr (incident_query E (get a ''priority'') (get a ''state''))),
                      (''sysparm_limit'', dict_get a ''limit'' (PInt 10))])]
       \<and> incident_query E p s =
           (let clauses = map (\<lambda>(k, v). k @ ''='' @ fstr E v)
                            (filter (\<lambda>(k, v). truthy v) [(''priority'', p), (''state'', s)])
            in if clauses = [] then ''ORDERBYDESCsys_created_on'' else join ''^'' clauses)
       \<and> incident_query E (PStr ''1'') (PStr ''2'') = ''priority=1^state=2''
       \<and> incident_query E PNone PNone = ''ORDERBYDESCsys_created_on''"
proof (intro conjI)
  show "requests (snd (invoke E ''list_incidents'' (PDict a))) =
           [ParamsRequest ''table/incident''
              (PDict [(''sysparm_query'', PStr (incident_query E (get a ''priority'') (get a ''state''))),
                      (''sysparm_limit'', dict_get a ''limit'' (PInt 10))])]"
    using assms
    by (simp add: run_defs list_incidents_def Let_def split: sum.splits exn.splits)
qed (simp_all add: incident_query_def Let_def)

theorem list_incidents_query_witness:
  "requests (snd (invoke (demo_env (PList []) []) ''list_incidents''
      (PDict [(''priority'', PStr ''1''), (''state'', PStr ''2'')]))) =
     [ParamsRequest ''table/incident''
        (PDict [(''sysparm_query'', PStr ''priority=1^state=2''), (''sysparm_limit'', PInt 10)])]
   \<and> requests (snd (invoke (demo_env (PList []) []) ''list_incidents''
      (PDict [(''limit'', PInt 3)]))) =
     [ParamsRequest ''table/incident''
        (PDict [(''sysparm_query'', PStr ''ORDERBYDESCsys_created_on''),
                (''sysparm_limit'', PInt 3)])]"
  using list_incidents_query [of "demo_env (PList []) []"
      "[(''priority'', PStr ''1''), (''state'', PStr ''2'')]"]
    list_incidents_query [of "demo_env (PList []) []" "[(''limit'', PInt 3)]"]
  by (simp add: get_def dict_get_def)

text \<open>
  Claim C8. When the list call by number (limit 1) is answered with a non-empty list whose
  first record is a dict, \<^verbatim>\<open>update_incident\<close> sends that list call and then one PATCH on
  the record's \<^verbatim>\<open>sys_id\<close>, whose body is the arguments without the key \<^verbatim>\<open>number\<close>: every
  other key keeps its value.
\<close>

theorem update_incident_payload:
  assumes "configured E"
    and "q = ParamsRequest ''table/incident''
               (PDict [(''sysparm_query'', PStr (''number='' @ fstr E (get a ''number''))),
                       (''sysparm_limit'', PInt 1)])"
    and "remote E [] q = Inr (PDict body)"
    and "dict_get body ''result'' (PList []) = PList (PDict r # rest)"
  shows "requests (snd (invoke E ''update_incident'' (PDict a))) =
           [q, JsonRequest ''PATCH'' (''table/incident/'' @ fstr E (get r ''sys_id''))
                 (PDict (filter (\<lambda>kv. fst kv \<noteq> ''number'') a))]
       \<and> (\<forall>k. map_of (filter (\<lambda>kv. fst kv \<noteq> ''number'') a) k =
                (if k = ''number'' then None else map_of a k))"
proof
  show "requests (snd (invoke E ''update_incident'' (PDict a))) =
           [q, JsonRequest ''PATCH'' (''table/incident/'' @ fstr E (get r ''sys_id''))
                 (PDict (filter (\<lambda>kv. fst kv \<noteq> ''number'') a))]"
    using assms
    by (simp add: run_defs update_incident_def number_query_def first_item_def Let_def
        split: sum.splits exn.splits)
next
  have "map_of (filter (\<lambda>kv. fst kv \<noteq> ''number'') a) k =
          (if k = ''number'' then None else map_of a k)" for k
    by (induction a) auto
  then show "\<forall>k. map_of (filter (\<lambda>kv. fst kv \<noteq> ''number'') a) k =
                (if k = ''number'' then None else map_of a k)"
    by blast
qed

theorem update_incident_payload_witness:
  "requests (snd (invoke (demo_env (PList [PDict [(''sys_id'', PStr ''abc123'')]]) [])
      ''update_incident''
      (PDict [(''number'', PStr ''INC0010014''), (''state'', PStr ''2''),
              (''comments'', PStr ''on it'')]))) =
     [ParamsRequest ''table/incident''
        (PDict [(''sysparm_query'', PStr ''number=INC0010014''), (''sysparm_limit'', PInt 1)]),
      JsonRequest ''PATCH'' ''table/incident/abc123''
        (PDict [(''state'', PStr ''2''), (''comments'', PStr ''on it'')])]"
  using update_incident_payload [of "demo_env (PList [PDict [(''sys_id'', PStr ''abc123'')]]) []"
      "ParamsRequest ''table/incident''
        (PDict [(''sysparm_query'', PStr ''number=INC0010014''), (''sysparm_limit'', PInt 1)])"
      "[(''number'', PStr ''INC0010014''), (''state'', PStr ''2''), (''comments'', PStr ''on it'')]"
      "[(''result'', PList [PDict [(''sys_id'', PStr ''abc123'')]])]"
      "[(''sys_id'', PStr ''abc123'')]" "[]"]
  by (simp add: get_def dict_get_def demo_remote_def)

section \<open>Record producers and variable sets\<close>

text \<open>One turn of each of the two loops over the variables.\<close>

lemma producer_variables_step:
  assumes "configured E"
  shows "producer_variables E pid (PDict v # vars) acc tr0 =
     (let rq = JsonRequest ''POST'' ''table/item_option_new'' (producer_var_data pid v);
          ans = remote E tr0 rq
      in case unwrap PNone ans of
           Inl e \<Rightarrow> (Inl e, tr0 @ [Http rq ans])
         | Inr v_res \<Rightarrow>
             (case as_dict v_res of
                Inl e \<Rightarrow> (Inl e, tr0 @ [Http rq ans])
              | Inr vr \<Rightarrow>
                  producer_variables E pid vars (acc @ [get vr ''name'']) (tr0 @ [Http rq ans])))"
  using assms
  by (simp add: bind_def lift_def create_record_def client_request_run Let_def split: sum.splits)

declare producer_variables.simps(2) [simp del]

lemma result_field_unwrap:
  "unwrap PNone ans = Inr v \<Longrightarrow> as_dict v = Inr d \<Longrightarrow> result_field k ans = get d k"
  by (cases v) (simp_all add: result_field_def item_def as_dict_def)

lemma producer_variables_ok:
  assumes "configured E"
  shows "producer_variables E pid (map PDict vs) acc tr0 = (Inr created, tr) \<Longrightarrow>
     \<exists>anss. length anss = length vs
          \<and> tr = tr0 @ map2 (producer_child pid) vs anss
          \<and> created = acc @ map (result_field ''name'') anss"
proof (induction vs arbitrary: acc tr0)
  case Nil
  then show ?case by simp
next
  case (Cons v vs)
  define rq where "rq = JsonRequest ''POST'' ''table/item_option_new'' (producer_var_data pid v)"
  define ans where "ans = remote E tr0 rq"
  from Cons.prems obtain v_res vr where
    u: "unwrap PNone ans = Inr v_res" and d: "as_dict v_res = Inr vr"
    and rest: "producer_variables E pid (map PDict vs) (acc @ [get vr ''name''])
                 (tr0 @ [Http rq ans]) = (Inr created, tr)"
    by (auto simp add: producer_variables_step [OF assms] Let_def rq_def ans_def
        split: sum.splits)
  from Cons.IH [OF rest] obtain anss where
    a: "length anss = length vs"
      "tr = (tr0 @ [Http rq ans]) @ map2 (producer_child pid) vs anss"
      "created = (acc @ [get vr ''name'']) @ map (result_field ''name'') anss"
    by blast
  have "length (ans # anss) = length (v # vs)
      \<and> tr = tr0 @ map2 (producer_child pid) (v # vs) (ans # anss)
      \<and> created = acc @ map (result_field ''name'') (ans # anss)"
    using a result_field_unwrap [OF u d] by (simp add: producer_child_def rq_def)
  then show ?case by blast
qed

lemma producer_variables_prefix:
  assumes "configured E"
  shows "\<exists>anss. length anss \<le> length vs
          \<and> snd (producer_variables E pid (map PDict vs) acc tr0) =
              tr0 @ map2 (producer_child pid) vs anss"
proof (induction vs arbitrary: acc tr0)
  case Nil
  then show ?case by simp
next
  case (Cons v vs)
  define rq where "rq = JsonRequest ''POST'' ''table/item_option_new'' (producer_var_data pid v)"
  define ans where "ans = remote E tr0 rq"
  have one: "tr0 @ [Http rq ans] = tr0 @ map2 (producer_child pid) (v # vs) [ans]"
    by (simp add: producer_child_def rq_def)
  show ?case
  proof (cases "unwrap PNone ans")
    case (Inl e)
    then have "snd (producer_variables E pid (map PDict (v # vs)) acc tr0) = tr0 @ [Http rq ans]"
      by (simp add: producer_variables_step [OF assms] Let_def rq_def ans_def)
    with one have "length [ans] \<le> length (v # vs)
       \<and> snd (producer_variables E pid (map PDict (v # vs)) acc tr0) =
           tr0 @ map2 (producer_child pid) (v # vs) [ans]"
      by simp
    then show ?thesis by blast
  next
    case (Inr v_res)
    show ?thesis
    proof (cases "as_dict v_res")
      case (Inl e)
      with Inr have "snd (producer_variables E pid (map PDict (v # vs)) acc tr0) = tr0 @ [Http rq ans]"
        by (simp add: producer_variables_step [OF assms] Let_def rq_def ans_def)
      with one have "length [ans] \<le> length (v # vs)
         \<and> snd (producer_variables E pid (map PDict (v # vs)) acc tr0) =
             tr0 @ map2 (producer_child pid) (v # vs) [ans]"
        by simp
      then show ?thesis by blast
    next
      case vr: (Inr vr)
      from Cons.IH [of "acc @ [get vr ''name'']" "tr0 @ [Http rq ans]"] obtain anss where
        a: "length anss \<le> length vs"
          "snd (producer_variables E pid (map PDict vs) (acc @ [get vr ''name''])
                 (tr0 @ [Http rq ans])) = (tr0 @ [Http rq ans]) @ map2 (producer_child pid) vs anss"
        by blast
      have "length (ans # anss) \<le> length (v # vs)
         \<and> snd (producer_variables E pid (map PDict (v # vs)) acc tr0) =
             tr0 @ map2 (producer_child pid) (v # vs) (ans # anss)"
        using a Inr vr
        by (simp add: producer_variables_step [OF assms] Let_def rq_def ans_def producer_child_def)
      then show ?thesis by blast
    qed
  qed
qed

lemma set_variables_step:
  assumes "configured E"
  shows "set_variables E sid (PDict v # vars) tr0 =
     (let rq = JsonRequest ''POST'' ''table/item_option_new'' (set_var_data sid v);
          ans = remote E tr0 rq
      in case unwrap PNone ans of
           Inl e \<Rightarrow> (Inl e, tr0 @ [Http rq ans])
         | Inr v_res \<Rightarrow> set_variables E sid vars (tr0 @ [Http rq ans]))"
  using assms
  by (simp add: bind_def lift_def create_record_def client_request_run Let_def split: sum.splits)

declare set_variables.simps(2) [simp del]

lemma set_variables_ok:
  assumes "configured E"
  shows "set_variables E sid (map PDict vs) tr0 = (Inr u, tr) \<Longrightarrow>
     \<exists>anss. length anss = length vs \<and> tr = tr0 @ map2 (set_child sid) vs anss"
proof (induction vs arbitrary: tr0)
  case Nil
  then show ?case by simp
next
  case (Cons v vs)
  define rq where "rq = JsonRequest ''POST'' ''table/item_option_new'' (set_var_data sid v)"
  define ans where "ans = remote E tr0 rq"
  from Cons.prems have
    rest: "set_variables E sid (map PDict vs) (tr0 @ [Http rq ans]) = (Inr u, tr)"
    by (auto simp add: set_variables_step [OF assms] Let_def rq_def ans_def split: sum.splits)
  from Cons.IH [OF rest] obtain anss where
    a: "length anss = length vs" "tr = (tr0 @ [Http rq ans]) @ map2 (set_child sid) vs anss"
    by blast
  have "length (ans # anss) = length (v # vs)
      \<and> tr = tr0 @ map2 (set_child sid) (v # vs) (ans # anss)"
    using a by (simp add: set_child_def rq_def)
  then show ?case by blast
qed

lemma str_items_strings: "str_items i vs = Inr ss \<Longrightarrow> vs = map PStr ss"
proof (induction vs arbitrary: i ss)
  case Nil
  then show ?case by simp
next
  case (Cons v vs)
  then show ?case
    by (cases v) (auto split: sum.splits)
qed

lemma join_values_strings:
  "join_values sep vs = Inr t \<Longrightarrow> \<exists>ss. vs = map PStr ss \<and> t = join sep ss"
  by (auto simp add: join_values_def split: sum.splits dest: str_items_strings)

lemma iterate_PList [simp]: "iterate (PList xs) = Inr xs"
  by (simp add: iterate_def)

lemma create_record_producer_run:
  assumes "configured E" and "dict_get a ''variables'' (PList []) = PList vars"
  shows "create_record_producer E (PDict a) [] =
     (let prq = JsonRequest ''POST'' ''table/sc_cat_item_producer'' (producer_data a);
          pans = remote E [] prq
      in case unwrap PNone pans of
           Inl e \<Rightarrow> (Inl e, [Http prq pans])
         | Inr producer \<Rightarrow>
             (case as_dict producer of
                Inl e \<Rightarrow> (Inl e, [Http prq pans])
              | Inr p \<Rightarrow>
                  (case producer_variables E (get p ''sys_id'') vars [] [Http prq pans] of
                     (Inl e, tr) \<Rightarrow> (Inl e, tr)
                   | (Inr created, tr) \<Rightarrow>
                       (case join_values '', '' created of
                          Inl e \<Rightarrow> (Inl e, tr)
                        | Inr names \<Rightarrow>
                            (Inr (''Record Producer created: '' @ fstr E (get p ''name'')
                                  @ '' (sys_id: '' @ fstr E (get p ''sys_id'')
                                  @ '') with variables: '' @ names), tr)))))"
  using assms
  by (simp add: create_record_producer_def bind_def lift_def create_record_def
      client_request_run Let_def split: sum.splits prod.splits)

lemma create_variable_set_run:
  assumes "configured E" and "dict_get a ''variables'' (PList []) = PList vars"
  shows "create_variable_set E (PDict a) [] =
     (let prq = JsonRequest ''POST'' ''table/item_option_new_set'' (variable_set_data a);
          pans = remote E [] prq
      in case unwrap PNone pans of
           Inl e \<Rightarrow> (Inl e, [Http prq pans])
         | Inr vset \<Rightarrow>
             (case as_dict vset of
                Inl e \<Rightarrow> (Inl e, [Http prq pans])
              | Inr s \<Rightarrow>
                  (case set_variables E (get s ''sys_id'') vars [Http prq pans] of
                     (Inl e, tr) \<Rightarrow> (Inl e, tr)
                   | (Inr u, tr) \<Rightarrow>
                       (Inr (''Variable Set created: '' @ fstr E (get s ''name'')
                             @ '' (sys_id: '' @ fstr E (get s ''sys_id'') @ '')''), tr))))"
  using assms
  by (simp add: create_variable_set_def bind_def lift_def create_record_def
      client_request_run Let_def split: sum.splits prod.splits)

text \<open>An invocation that logged nothing returned what the body of the tool returned.\<close>

lemma invoke_unlogged:
  assumes "invoke E name arguments = (Inr text, tr)" and "log_lines tr = []"
  shows "tool_body E name arguments [] = (Inr text, tr)"
  using assms by (auto simp add: invoke_run split: prod.splits sum.splits exn.splits)


lemma producer_success:
  assumes c: "configured E" and v: "dict_get a ''variables'' (PList []) = PList (map PDict vs)"
    and run: "create_record_producer E (PDict a) [] = (Inr text, tr)"
    and prq: "prq = JsonRequest ''POST'' ''table/sc_cat_item_producer'' (producer_data a)"
    and pans: "pans = remote E [] prq"
  shows "\<exists>anss names. length anss = length vs
      \<and> tr = Http prq pans # map2 (producer_child (result_field ''sys_id'' pans)) vs anss
      \<and> map (result_field ''name'') anss = map PStr names
      \<and> text = ''Record Producer created: '' @ fstr E (result_field ''name'' pans)
                @ '' (sys_id: '' @ fstr E (result_field ''sys_id'' pans)
                @ '') with variables: '' @ join '', '' names"
proof -
  from run obtain producer p created joined where
    u: "unwrap PNone pans = Inr producer" and d: "as_dict producer = Inr p"
    and loop: "producer_variables E (get p ''sys_id'') (map PDict vs) [] [Http prq pans]
                 = (Inr created, tr)"
    and j: "join_values '', '' created = Inr joined"
    and t: "text = ''Record Producer created: '' @ fstr E (get p ''name'')
                @ '' (sys_id: '' @ fstr E (get p ''sys_id'')
                @ '') with variables: '' @ joined"
    by (auto simp add: create_record_producer_run [OF c v] Let_def prq pans
        split: sum.splits prod.splits)
  from producer_variables_ok [OF c loop] obtain anss where
    a: "length anss = length vs"
      "tr = [Http prq pans] @ map2 (producer_child (get p ''sys_id'')) vs anss"
      "created = [] @ map (result_field ''name'') anss"
    by blast
  from join_values_strings [OF j] obtain names where
    n: "created = map PStr names" "joined = join '', '' names"
    by blast
  have "length anss = length vs
      \<and> tr = Http prq pans # map2 (producer_child (result_field ''sys_id'' pans)) vs anss
      \<and> map (result_field ''name'') anss = map PStr names
      \<and> text = ''Record Producer created: '' @ fstr E (result_field ''name'' pans)
                @ '' (sys_id: '' @ fstr E (result_field ''sys_id'' pans)
                @ '') with variables: '' @ join '', '' names"
    using a n t result_field_unwrap [OF u d] by simp
  then show ?thesis by blast
qed

lemma set_success:
  assumes c: "configured E" and v: "dict_get a ''variables'' (PList []) = PList (map PDict vs)"
    and run: "create_variable_set E (PDict a) [] = (Inr text, tr)"
    and prq: "prq = JsonRequest ''POST'' ''table/item_option_new_set'' (variable_set_data a)"
    and pans: "pans = remote E [] prq"
  shows "\<exists>anss. length anss = length vs
      \<and> tr = Http prq pans # map2 (set_child (result_field ''sys_id'' pans)) vs anss
      \<and> text = ''Variable Set created: '' @ fstr E (result_field ''name'' pans)
                @ '' (sys_id: '' @ fstr E (result_field ''sys_id'' pans) @ '')''"
proof -
  from run obtain vset s u where
    u: "unwrap PNone pans = Inr vset" and d: "as_dict vset = Inr s"
    and loop: "set_variables E (get s ''sys_id'') (map PDict vs) [Http prq pans] = (Inr u, tr)"
    and t: "text = ''Variable Set created: '' @ fstr E (get s ''name'')
                @ '' (sys_id: '' @ fstr E (get s ''sys_id'') @ '')''"
    by (auto simp add: create_variable_set_run [OF c v] Let_def prq pans
        split: sum.splits prod.splits)
  from set_variables_ok [OF c loop] obtain anss where
    a: "length anss = length vs"
      "tr = [Http prq pans] @ map2 (set_child (get s ''sys_id'')) vs anss"
    by blast
  have "length anss = length vs
      \<and> tr = Http prq pans # map2 (set_child (result_field ''sys_id'' pans)) vs anss
      \<and> text = ''Variable Set created: '' @ fstr E (result_field ''name'' pans)
                @ '' (sys_id: '' @ fstr E (result_field ''sys_id'' pans) @ '')''"
    using a t result_field_unwrap [OF u d] by simp
  then show ?thesis by blast
qed

text \<open>
  Claim C3, as the code has it. On a run of \<^verbatim>\<open>create_record_producer\<close> that logged no
  error, with a list of dicts as \<^verbatim>\<open>variables\<close>, the trace is the POST of the parent to
  \<^verbatim>\<open>sc_cat_item_producer\<close> followed by one POST to \<^verbatim>\<open>item_option_new\<close> per variable,
  in order, each with the parent's \<^verbatim>\<open>sys_id\<close> under \<^verbatim>\<open>cat_item\<close>; the names the platform
  answered for the children are strings and the text ends with them, joined by a comma
  and a space. On such a run of \<^verbatim>\<open>create_variable_set\<close> the trace is the POST of the
  parent to \<^verbatim>\<open>item_option_new_set\<close> followed by one POST to \<^verbatim>\<open>item_option_new\<close> per
  variable, each with the parent's \<^verbatim>\<open>sys_id\<close> under \<^verbatim>\<open>variable_set\<close>; the text names the
  set and its \<^verbatim>\<open>sys_id\<close> only.
\<close>

theorem parent_then_children:
  assumes "configured E" and "dict_get a ''variables'' (PList []) = PList (map PDict vs)"
  shows "(invoke E ''create_record_producer'' (PDict a) = (Inr text, tr) \<and> log_lines tr = []
          \<longrightarrow> (\<exists>pans anss names. length anss = length vs
                \<and> tr = Http (JsonRequest ''POST'' ''table/sc_cat_item_producer''
                             (PDict [(''name'', get a ''name''),
                                     (''table_name'', get a ''table_name''),
                                     (''short_description'', get a ''short_description''),
                                     (''category'', get a ''category_sys_id''),
                                     (''script'', get a ''script'')])) pans
                       # map2 (\<lambda>v. Http (JsonRequest ''POST'' ''table/item_option_new''
                                 (PDict [(''cat_item'', result_field ''sys_id'' pans),
                                         (''name'', get v ''name''),
                                         (''question_text'', get v ''label''),
                                         (''type'', PInt (var_type_code (get v ''type''))),
                                         (''mandatory'', dict_get v ''mandatory'' (PBool False))])))
                           vs anss
                \<and> map (result_field ''name'') anss = map PStr names
                \<and> text = ''Record Producer created: '' @ fstr E (result_field ''name'' pans)
                          @ '' (sys_id: '' @ fstr E (result_field ''sys_id'' pans)
                          @ '') with variables: '' @ join '', '' names))
       \<and> (invoke E ''create_variable_set'' (PDict a) = (Inr text, tr) \<and> log_lines tr = []
          \<longrightarrow> (\<exists>pans anss. length anss = length vs
                \<and> tr = Http (JsonRequest ''POST'' ''table/item_option_new_set''
                             (PDict [(''name'', get a ''name''),
                                     (''description'', get a ''description'')])) pans
                       # map2 (\<lambda>v. Http (JsonRequest ''POST'' ''table/item_option_new''
                                 (PDict [(''variable_set'', result_field ''sys_id'' pans),
                                         (''name'', get v ''name''),
                                         (''question_text'', get v ''label''),
                                         (''mandatory'', dict_get v ''mandatory'' (PBool False))])))
                           vs anss
                \<and> text = ''Variable Set created: '' @ fstr E (result_field ''name'' pans)
                          @ '' (sys_id: '' @ fstr E (result_field ''sys_id'' pans) @ '')''))"
proof (intro conjI impI)
  assume "invoke E ''create_record_producer'' (PDict a) = (Inr text, tr) \<and> log_lines tr = []"
  then have run: "create_record_producer E (PDict a) [] = (Inr text, tr)"
    using invoke_unlogged [of E "''create_record_producer''" "PDict a" "text" tr]
    by (simp add: tool_body_def)
  from producer_success [OF assms run refl refl]
  show "\<exists>pans anss names. length anss = length vs
                \<and> tr = Http (JsonRequest ''POST'' ''table/sc_cat_item_producer''
                             (PDict [(''name'', get a ''name''),
                                     (''table_name'', get a ''table_name''),
                                     (''short_description'', get a ''short_description''),
                                     (''category'', get a ''category_sys_id''),
                                     (''script'', get a ''script'')])) pans
                       # map2 (\<lambda>v. Http (JsonRequest ''POST'' ''table/item_option_new''
                                 (PDict [(''cat_item'', result_field ''sys_id'' pans),
                                         (''name'', get v ''name''),
                                         (''question_text'', get v ''label''),
                                         (''type'', PInt (var_type_code (get v ''type''))),
                                         (''mandatory'', dict_get v ''mandatory'' (PBool False))])))
                           vs anss
                \<and> map (result_field ''name'') anss = map PStr names
                \<and> text = ''Record Producer created: '' @ fstr E (result_field ''name'' pans)
                          @ '' (sys_id: '' @ fstr E (result_field ''sys_id'' pans)
                          @ '') with variables: '' @ join '', '' names"
    unfolding producer_child_def [abs_def] producer_var_data_def producer_data_def by blast
next
  assume "invoke E ''create_variable_set'' (PDict a) = (Inr text, tr) \<and> log_lines tr = []"
  then have run: "create_variable_set E (PDict a) [] = (Inr text, tr)"
    using invoke_unlogged [of E "''create_variable_set''" "PDict a" "text" tr]
    by (simp add: tool_body_def)
  from set_success [OF assms run refl refl]
  show "\<exists>pans anss. length anss = length vs
                \<and> tr = Http (JsonRequest ''POST'' ''table/item_option_new_set''
                             (PDict [(''name'', get a ''name''),
                                     (''description'', get a ''description'')])) pans
                       # map2 (\<lambda>v. Http (JsonRequest ''POST'' ''table/item_option_new''
                                 (PDict [(''variable_set'', result_field ''sys_id'' pans),
                                         (''name'', get v ''name''),
                                         (''question_text'', get v ''label''),
                                         (''mandatory'', dict_get v ''mandatory'' (PBool False))])))
                           vs anss
                \<and> text = ''Variable Set created: '' @ fstr E (result_field ''name'' pans)
                          @ '' (sys_id: '' @ fstr E (result_field ''sys_id'' pans) @ '')''"
    unfolding set_child_def [abs_def] set_var_data_def variable_set_data_def by blast
qed

lemma demo_producer_run:
  "invoke (demo_env PNone []) ''create_record_producer''
     (PDict [(''name'', PStr ''laptop''),
             (''variables'', PList [PDict [(''name'', PStr ''color'')]])]) =
   (Inr ''Record Producer created: laptop (sys_id: id0) with variables: color'',
    [Http (JsonRequest ''POST'' ''table/sc_cat_item_producer''
             (PDict [(''name'', PStr ''laptop''), (''table_name'', PNone),
                     (''short_description'', PNone), (''category'', PNone),
                     (''script'', PNone)]))
          (Inr (PDict [(''result'', PDict [(''sys_id'', PStr ''id0''), (''name'', PStr ''laptop''),
                                          (''table_name'', PNone),
                                          (''short_description'', PNone), (''category'', PNone),
                                          (''script'', PNone)])])),
     Http (JsonRequest ''POST'' ''table/item_option_new''
             (PDict [(''cat_item'', PStr ''id0''), (''name'', PStr ''color''),
                     (''question_text'', PNone), (''type'', PInt 2),
                     (''mandatory'', PBool False)]))
          (Inr (PDict [(''result'', PDict [(''sys_id'', PStr ''id1''),
                                          (''cat_item'', PStr ''id0''),
                                          (''name'', PStr ''color''), (''question_text'', PNone),
                                          (''type'', PInt 2),
                                          (''mandatory'', PBool False)])]))])"
  by code_simp

lemma demo_set_run:
  "invoke (demo_env PNone []) ''create_variable_set''
     (PDict [(''name'', PStr ''laptop''),
             (''variables'', PList [PDict [(''name'', PStr ''color'')]])]) =
   (Inr ''Variable Set created: laptop (sys_id: id0)'',
    [Http (JsonRequest ''POST'' ''table/item_option_new_set''
             (PDict [(''name'', PStr ''laptop''), (''description'', PNone)]))
          (Inr (PDict [(''result'', PDict [(''sys_id'', PStr ''id0''), (''name'', PStr ''laptop''),
                                          (''description'', PNone)])])),
     Http (JsonRequest ''POST'' ''table/item_option_new''
             (PDict [(''variable_set'', PStr ''id0''), (''name'', PStr ''color''),
                     (''question_text'', PNone), (''mandatory'', PBool False)]))
          (Inr (PDict [(''result'', PDict [(''sys_id'', PStr ''id1''),
                                          (''variable_set'', PStr ''id0''),
                                          (''name'', PStr ''color''), (''question_text'', PNone),
                                          (''mandatory'', PBool False)])]))])"
  by code_simp

theorem parent_then_children_witness:
  "(\<exists>text tr pans anss names.
      invoke (demo_env PNone []) ''create_record_producer''
        (PDict [(''name'', PStr ''laptop''),
                (''variables'', PList [PDict [(''name'', PStr ''color'')]])]) = (Inr text, tr)
    \<and> log_lines tr = []
    \<and> length anss = 1
    \<and> requests tr =
        [JsonRequest ''POST'' ''table/sc_cat_item_producer''
           (PDict [(''name'', PStr ''laptop''), (''table_name'', PNone),
                   (''short_description'', PNone), (''category'', PNone), (''script'', PNone)]),
         JsonRequest ''POST'' ''table/item_option_new''
           (PDict [(''cat_item'', result_field ''sys_id'' pans), (''name'', PStr ''color''),
                   (''question_text'', PNone), (''type'', PInt 2),
                   (''mandatory'', PBool False)])]
    \<and> map (result_field ''name'') anss = map PStr names
    \<and> text = ''Record Producer created: '' @ fstr (demo_env PNone []) (result_field ''name'' pans)
              @ '' (sys_id: '' @ fstr (demo_env PNone []) (result_field ''sys_id'' pans)
              @ '') with variables: '' @ join '', '' names)
   \<and> (\<exists>text tr pans.
      invoke (demo_env PNone []) ''create_variable_set''
        (PDict [(''name'', PStr ''laptop''),
                (''variables'', PList [PDict [(''name'', PStr ''color'')]])]) = (Inr text, tr)
    \<and> log_lines tr = []
    \<and> requests tr =
        [JsonRequest ''POST'' ''table/item_option_new_set''
           (PDict [(''name'', PStr ''laptop''), (''description'', PNone)]),
         JsonRequest ''POST'' ''table/item_option_new''
           (PDict [(''variable_set'', result_field ''sys_id'' pans), (''name'', PStr ''color''),
                   (''question_text'', PNone), (''mandatory'', PBool False)])]
    \<and> text = ''Variable Set created: '' @ fstr (demo_env PNone []) (result_field ''name'' pans)
              @ '' (sys_id: '' @ fstr (demo_env PNone []) (result_field ''sys_id'' pans) @ '')'')"
proof
  let ?E = "demo_env PNone []"
  let ?a = "[(''name'', PStr ''laptop''), (''variables'', PList [PDict [(''name'', PStr ''color'')]])]"
  obtain t r where run: "invoke ?E ''create_record_producer'' (PDict ?a) = (Inr t, r)"
    and quiet: "log_lines r = []"
    using demo_producer_run by simp
  have c: "configured ?E" by simp
  have v: "dict_get ?a ''variables'' (PList []) = PList (map PDict [[(''name'', PStr ''color'')]])"
    by (simp add: dict_get_def)
  from parent_then_children [OF c v, of t r] run quiet
  obtain pans anss names where
    "length anss = length [[(''name'', PStr ''color'')]]"
    "r = Http (JsonRequest ''POST'' ''table/sc_cat_item_producer''
                 (PDict [(''name'', get ?a ''name''),
                         (''table_name'', get ?a ''table_name''),
                         (''short_description'', get ?a ''short_description''),
                         (''category'', get ?a ''category_sys_id''),
                         (''script'', get ?a ''script'')])) pans
           # map2 (\<lambda>v. Http (JsonRequest ''POST'' ''table/item_option_new''
                     (PDict [(''cat_item'', result_field ''sys_id'' pans),
                             (''name'', get v ''name''),
                             (''question_text'', get v ''label''),
                             (''type'', PInt (var_type_code (get v ''type''))),
                             (''mandatory'', dict_get v ''mandatory'' (PBool False))])))
               [[(''name'', PStr ''color'')]] anss"
    "map (result_field ''name'') anss = map PStr names"
    "t = ''Record Producer created: '' @ fstr ?E (result_field ''name'' pans)
              @ '' (sys_id: '' @ fstr ?E (result_field ''sys_id'' pans)
              @ '') with variables: '' @ join '', '' names"
    by blast
  then have "invoke ?E ''create_record_producer'' (PDict ?a) = (Inr t, r)
    \<and> log_lines r = []
    \<and> length anss = 1
    \<and> requests r =
        [JsonRequest ''POST'' ''table/sc_cat_item_producer''
           (PDict [(''name'', PStr ''laptop''), (''table_name'', PNone),
                   (''short_description'', PNone), (''category'', PNone), (''script'', PNone)]),
         JsonRequest ''POST'' ''table/item_option_new''
           (PDict [(''cat_item'', result_field ''sys_id'' pans), (''name'', PStr ''color''),
                   (''question_text'', PNone), (''type'', PInt 2),
                   (''mandatory'', PBool False)])]
    \<and> map (result_field ''name'') anss = map PStr names
    \<and> t = ''Record Producer created: '' @ fstr ?E (result_field ''name'' pans)
              @ '' (sys_id: '' @ fstr ?E (result_field ''sys_id'' pans)
              @ '') with variables: '' @ join '', '' names"
    using run quiet
    by (cases anss) (simp_all add: get_def dict_get_def var_type_code_def)
  then show "\<exists>text tr pans anss names.
      invoke ?E ''create_record_producer'' (PDict ?a) = (Inr text, tr)
    \<and> log_lines tr = []
    \<and> length anss = 1
    \<and> requests tr =
        [JsonRequest ''POST'' ''table/sc_cat_item_producer''
           (PDict [(''name'', PStr ''laptop''), (''table_name'', PNone),
                   (''short_description'', PNone), (''category'', PNone), (''script'', PNone)]),
         JsonRequest ''POST'' ''table/item_option_new''
           (PDict [(''cat_item'', result_field ''sys_id'' pans), (''name'', PStr ''color''),
                   (''question_text'', PNone), (''type'', PInt 2),
                   (''mandatory'', PBool False)])]
    \<and> map (result_field ''name'') anss = map PStr names
    \<and> text = ''Record Producer created: '' @ fstr ?E (result_field ''name'' pans)
              @ '' (sys_id: '' @ fstr ?E (result_field ''sys_id'' pans)
              @ '') with variables: '' @ join '', '' names"
    by blast
next
  let ?E = "demo_env PNone []"
  let ?a = "[(''name'', PStr ''laptop''), (''variables'', PList [PDict [(''name'', PStr ''color'')]])]"
  obtain t r where run: "invoke ?E ''create_variable_set'' (PDict ?a) = (Inr t, r)"
    and quiet: "log_lines r = []"
    using demo_set_run by simp
  have c: "configured ?E" by simp
  have v: "dict_get ?a ''variables'' (PList []) = PList (map PDict [[(''name'', PStr ''color'')]])"
    by (simp add: dict_get_def)
  from parent_then_children [OF c v, of t r] run quiet
  obtain pans anss where
    "length anss = length [[(''name'', PStr ''color'')]]"
    "r = Http (JsonRequest ''POST'' ''table/item_option_new_set''
                 (PDict [(''name'', get ?a ''name''),
                         (''description'', get ?a ''description'')])) pans
           # map2 (\<lambda>v. Http (JsonRequest ''POST'' ''table/item_option_new''
                     (PDict [(''variable_set'', result_field ''sys_id'' pans),
                             (''name'', get v ''name''),
                             (''question_text'', get v ''label''),
                             (''mandatory'', dict_get v ''mandatory'' (PBool False))])))
               [[(''name'', PStr ''color'')]] anss"
    "t = ''Variable Set created: '' @ fstr ?E (result_field ''name'' pans)
              @ '' (sys_id: '' @ fstr ?E (result_field ''sys_id'' pans) @ '')''"
    by blast
  then have "invoke ?E ''create_variable_set'' (PDict ?a) = (Inr t, r)
    \<and> log_lines r = []
    \<and> requests r =
        [JsonRequest ''POST'' ''table/item_option_new_set''
           (PDict [(''name'', PStr ''laptop''), (''description'', PNone)]),
         JsonRequest ''POST'' ''table/item_option_new''
           (PDict [(''variable_set'', result_field ''sys_id'' pans), (''name'', PStr ''color''),
                   (''question_text'', PNone), (''mandatory'', PBool False)])]
    \<and> t = ''Variable Set created: '' @ fstr ?E (result_field ''name'' pans)
              @ '' (sys_id: '' @ fstr ?E (result_field ''sys_id'' pans) @ '')''"
    using run quiet
    by (cases anss) (simp_all add: get_def dict_get_def)
  then show "\<exists>text tr pans.
      invoke ?E ''create_variable_set'' (PDict ?a) = (Inr text, tr)
    \<and> log_lines tr = []
    \<and> requests tr =
        [JsonRequest ''POST'' ''table/item_option_new_set''
           (PDict [(''name'', PStr ''laptop''), (''description'', PNone)]),
         JsonRequest ''POST'' ''table/item_option_new''
           (PDict [(''variable_set'', result_field ''sys_id'' pans), (''name'', PStr ''color''),
                   (''question_text'', PNone), (''mandatory'', PBool False)])]
    \<and> text = ''Variable Set created: '' @ fstr ?E (result_field ''name'' pans)
              @ '' (sys_id: '' @ fstr ?E (result_field ''sys_id'' pans) @ '')''"
    by - (rule exI [of _ t], rule exI [of _ r], rule exI [of _ pans])
qed

text \<open>
  Claim C3, as stated, fails for \<^verbatim>\<open>create_variable_set\<close>: the set \<^verbatim>\<open>laptop\<close> is created
  with one variable \<^verbatim>\<open>color\<close>, the platform answers with that name, and the success text
  does not contain it.
\<close>

theorem variable_set_names_counterexample:
  "invoke (demo_env PNone []) ''create_variable_set''
     (PDict [(''name'', PStr ''laptop''),
             (''variables'', PList [PDict [(''name'', PStr ''color'')]])]) =
   (Inr ''Variable Set created: laptop (sys_id: id0)'',
    [Http (JsonRequest ''POST'' ''table/item_option_new_set''
             (PDict [(''name'', PStr ''laptop''), (''description'', PNone)]))
          (Inr (PDict [(''result'', PDict [(''sys_id'', PStr ''id0''), (''name'', PStr ''laptop''),
                                          (''description'', PNone)])])),
     Http (JsonRequest ''POST'' ''table/item_option_new''
             (PDict [(''variable_set'', PStr ''id0''), (''name'', PStr ''color''),
                     (''question_text'', PNone), (''mandatory'', PBool False)]))
          (Inr (PDict [(''result'', PDict [(''sys_id'', PStr ''id1''),
                                          (''variable_set'', PStr ''id0''),
                                          (''name'', PStr ''color''), (''question_text'', PNone),
                                          (''mandatory'', PBool False)])]))])
   \<and> \<not> contains ''color'' ''Variable Set created: laptop (sys_id: id0)''"
  by code_simp

lemma posted_simps [simp]:
  "posted table [] = []"
  "posted table (ev # tr) = posted_to table ev @ posted table tr"
  "posted table (tr @ tr') = posted table tr @ posted table tr'"
  by (simp_all add: posted_def)

lemma posted_children:
  "posted ''item_option_new'' (map2 (producer_child pid) vs anss) =
     map (producer_var_data pid) (take (length anss) vs)"
proof (induction vs arbitrary: anss)
  case Nil
  then show ?case by simp
next
  case (Cons v vs)
  then show ?case by (cases anss) (simp_all add: producer_child_def)
qed

lemma producer_trace:
  assumes c: "configured E" and v: "dict_get a ''variables'' (PList []) = PList (map PDict vs)"
    and prq: "prq = JsonRequest ''POST'' ''table/sc_cat_item_producer'' (producer_data a)"
    and pans: "pans = remote E [] prq"
  shows "\<exists>anss. length anss \<le> length vs
      \<and> snd (create_record_producer E (PDict a) []) =
          Http prq pans # map2 (producer_child (result_field ''sys_id'' pans)) vs anss
      \<and> ((\<exists>t. fst (create_record_producer E (PDict a) []) = Inr t) \<longrightarrow> length anss = length vs)"
proof (cases "fst (create_record_producer E (PDict a) [])")
  case (Inr t)
  then have "create_record_producer E (PDict a) [] = (Inr t, snd (create_record_producer E (PDict a) []))"
    by (metis prod.collapse)
  from producer_success [OF c v this prq pans] obtain anss where
    "length anss = length vs"
    "snd (create_record_producer E (PDict a) []) =
       Http prq pans # map2 (producer_child (result_field ''sys_id'' pans)) vs anss"
    by auto
  then have "length anss \<le> length vs
      \<and> snd (create_record_producer E (PDict a) []) =
          Http prq pans # map2 (producer_child (result_field ''sys_id'' pans)) vs anss
      \<and> ((\<exists>t. fst (create_record_producer E (PDict a) []) = Inr t) \<longrightarrow> length anss = length vs)"
    by simp
  then show ?thesis by blast
next
  case (Inl e)
  note run = create_record_producer_run [OF c v]
  show ?thesis
  proof (cases "unwrap PNone pans")
    case u: (Inl e')
    then have "snd (create_record_producer E (PDict a) []) =
        Http prq pans # map2 (producer_child (result_field ''sys_id'' pans)) vs []"
      by (simp add: run Let_def prq pans)
    with Inl show ?thesis by (metis le0 list.size(3) sum.distinct(1))
  next
    case u: (Inr producer)
    show ?thesis
    proof (cases "as_dict producer")
      case d: (Inl e')
      with u have "snd (create_record_producer E (PDict a) []) =
          Http prq pans # map2 (producer_child (result_field ''sys_id'' pans)) vs []"
        by (simp add: run Let_def prq pans)
      with Inl show ?thesis by (metis le0 list.size(3) sum.distinct(1))
    next
      case d: (Inr p)
      from producer_variables_prefix [OF c, of vs "get p ''sys_id''" "[]" "[Http prq pans]"]
      obtain anss where a: "length anss \<le> length vs"
        "snd (producer_variables E (get p ''sys_id'') (map PDict vs) [] [Http prq pans]) =
           [Http prq pans] @ map2 (producer_child (get p ''sys_id'')) vs anss"
        by blast
      have "snd (create_record_producer E (PDict a) []) =
          snd (producer_variables E (get p ''sys_id'') (map PDict vs) [] [Http prq pans])"
        using u d by (simp add: run Let_def prq pans split: prod.splits sum.splits)
      with a result_field_unwrap [OF u d, of "''sys_id''"]
      have "length anss \<le> length vs
        \<and> snd (create_record_producer E (PDict a) []) =
            Http prq pans # map2 (producer_child (result_field ''sys_id'' pans)) vs anss"
        by simp
      with Inl show ?thesis by (metis sum.distinct(1))
    qed
  qed
qed


lemma item_type_var_data:
  "item ''type'' (producer_var_data pid v) = PInt (var_type_code (get v ''type''))"
  by (simp add: item_def producer_var_data_def get_def dict_get_def)

text \<open>
  Claim C7. For a list of dicts as \<^verbatim>\<open>variables\<close>, the type codes of the bodies posted to
  \<^verbatim>\<open>item_option_new\<close> by \<^verbatim>\<open>create_record_producer\<close>, in the order of the trace, are the
  codes of the variables in input order, as far as the run got (all of them on a run that
  returned a text and logged no error): 6 for the type \<^verbatim>\<open>string\<close>, 1 for \<^verbatim>\<open>choice\<close>, 2 for anything else.
  The witness is the list \<^verbatim>\<open>[choice, integer, string]\<close>, whose codes are 1, 2, 6.
\<close>

theorem producer_type_codes:
  assumes "configured E" and "dict_get a ''variables'' (PList []) = PList (map PDict vs)"
    and "tr = snd (invoke E ''create_record_producer'' (PDict a))"
  shows "\<exists>k. k \<le> length vs
      \<and> map (item ''type'') (posted ''item_option_new'' tr) =
          take k (map (\<lambda>v. PInt (if get v ''type'' = PStr ''string'' then 6
                                   else if get v ''type'' = PStr ''choice'' then 1 else 2)) vs)
      \<and> ((\<exists>t. fst (invoke E ''create_record_producer'' (PDict a)) = Inr t)
           \<and> log_lines tr = [] \<longrightarrow> k = length vs)"
proof -
  define body where "body = create_record_producer E (PDict a) []"
  define prq where "prq = JsonRequest ''POST'' ''table/sc_cat_item_producer'' (producer_data a)"
  from producer_trace [OF assms(1,2) prq_def refl] obtain anss where
    len: "length anss \<le> length vs"
    and tr0: "snd body = Http prq (remote E [] prq)
                # map2 (producer_child (result_field ''sys_id'' (remote E [] prq))) vs anss"
    and full: "(\<exists>t. fst body = Inr t) \<longrightarrow> length anss = length vs"
    unfolding body_def by blast
  have inv: "invoke E ''create_record_producer'' (PDict a) =
      (case body of
         (Inl (Exn c msg), r) \<Rightarrow>
           (Inr (''Error: '' @ msg),
            r @ [Log (''Error executing tool '' @ ''create_record_producer'' @ '': '' @ msg)])
       | (Inl (BaseExn c msg), r) \<Rightarrow> (Inl (BaseExn c msg), r)
       | (Inr t, r) \<Rightarrow> (Inr t, r))"
    by (simp add: invoke_run tool_body_def body_def)
  have p: "posted ''item_option_new'' tr = posted ''item_option_new'' (snd body)"
    unfolding assms(3) inv by (cases body) (simp split: sum.splits exn.splits)
  have q: "(\<exists>t. fst (invoke E ''create_record_producer'' (PDict a)) = Inr t)
      \<and> log_lines tr = [] \<Longrightarrow> \<exists>t. fst body = Inr t"
    unfolding assms(3) inv by (cases body) (auto split: sum.splits exn.splits)
  have "posted ''item_option_new'' (snd body) =
      map (producer_var_data (result_field ''sys_id'' (remote E [] prq))) (take (length anss) vs)"
    by (simp add: tr0 prq_def posted_children)
  with p have "map (item ''type'') (posted ''item_option_new'' tr) =
      take (length anss) (map (\<lambda>v. PInt (if get v ''type'' = PStr ''string'' then 6
                                   else if get v ''type'' = PStr ''choice'' then 1 else 2)) vs)"
    by (simp add: item_type_var_data var_type_code_def take_map)
  with len full q show ?thesis by blast
qed

lemma demo_codes_quiet:
  "log_lines (snd (invoke (demo_env PNone []) ''create_record_producer''
     (PDict [(''name'', PStr ''laptop''),
             (''variables'', PList [PDict [(''name'', PStr ''a''), (''type'', PStr ''choice'')],
                                   PDict [(''name'', PStr ''b''), (''type'', PStr ''integer'')],
                                   PDict [(''name'', PStr ''c''), (''type'', PStr ''string'')]])]))) = []
   \<and> fst (invoke (demo_env PNone []) ''create_record_producer''
     (PDict [(''name'', PStr ''laptop''),
             (''variables'', PList [PDict [(''name'', PStr ''a''), (''type'', PStr ''choice'')],
                                   PDict [(''name'', PStr ''b''), (''type'', PStr ''integer'')],
                                   PDict [(''name'', PStr ''c''), (''type'', PStr ''string'')]])])) =
     Inr ''Record Producer created: laptop (sys_id: id0) with variables: a, b, c''"
  by code_simp

theorem producer_type_codes_witness:
  "map (item ''type'') (posted ''item_option_new''
     (snd (invoke (demo_env PNone []) ''create_record_producer''
        (PDict [(''name'', PStr ''laptop''),
                (''variables'', PList [PDict [(''name'', PStr ''a''), (''type'', PStr ''choice'')],
                                      PDict [(''name'', PStr ''b''), (''type'', PStr ''integer'')],
                                      PDict [(''name'', PStr ''c''), (''type'', PStr ''string'')]])])))) =
     [PInt 1, PInt 2, PInt 6]"
proof -
  let ?E = "demo_env PNone []"
  let ?vs = "[[(''name'', PStr ''a''), (''type'', PStr ''choice'')],
              [(''name'', PStr ''b''), (''type'', PStr ''integer'')],
              [(''name'', PStr ''c''), (''type'', PStr ''string'')]]"
  let ?a = "[(''name'', PStr ''laptop''), (''variables'', PList (map PDict ?vs))]"
  have c: "configured ?E" by simp
  have v: "dict_get ?a ''variables'' (PList []) = PList (map PDict ?vs)"
    by (simp add: dict_get_def)
  have q: "log_lines (snd (invoke ?E ''create_record_producer'' (PDict ?a))) = []"
    and r: "\<exists>t. fst (invoke ?E ''create_record_producer'' (PDict ?a)) = Inr t"
    using demo_codes_quiet by simp_all
  from producer_type_codes [OF c v refl] obtain k where
    k: "map (item ''type'') (posted ''item_option_new''
          (snd (invoke ?E ''create_record_producer'' (PDict ?a)))) =
        take k (map (\<lambda>v. PInt (if get v ''type'' = PStr ''string'' then 6
                                   else if get v ''type'' = PStr ''choice'' then 1 else 2)) ?vs)"
    and "(\<exists>t. fst (invoke ?E ''create_record_producer'' (PDict ?a)) = Inr t)
         \<and> log_lines (snd (invoke ?E ''create_record_producer'' (PDict ?a))) = []
         \<longrightarrow> k = length ?vs"
    by blast
  with q r have "k = 3" by simp
  with k show ?thesis by (simp add: get_def dict_get_def)
qed

section \<open>Field names sent by the create tools\<close>

lemma requests_producer_children:
  "requests (map2 (producer_child pid) vs anss) =
     map (\<lambda>v. JsonRequest ''POST'' ''table/item_option_new'' (producer_var_data pid v))
       (take (length anss) vs)"
proof (induction vs arbitrary: anss)
  case Nil
  then show ?case by simp
next
  case (Cons v vs)
  then show ?case by (cases anss) (simp_all add: producer_child_def)
qed

lemma requests_set_children:
  "requests (map2 (set_child sid) vs anss) =
     map (\<lambda>v. JsonRequest ''POST'' ''table/item_option_new'' (set_var_data sid v))
       (take (length anss) vs)"
proof (induction vs arbitrary: anss)
  case Nil
  then show ?case by simp
next
  case (Cons v vs)
  then show ?case by (cases anss) (simp_all add: set_child_def)
qed

lemma set_variables_prefix:
  assumes "configured E"
  shows "\<exists>anss. length anss \<le> length vs
          \<and> snd (set_variables E sid (map PDict vs) tr0) = tr0 @ map2 (set_child sid) vs anss"
proof (induction vs arbitrary: tr0)
  case Nil
  then show ?case by simp
next
  case (Cons v vs)
  define rq where "rq = JsonRequest ''POST'' ''table/item_option_new'' (set_var_data sid v)"
  define ans where "ans = remote E tr0 rq"
  have one: "tr0 @ [Http rq ans] = tr0 @ map2 (set_child sid) (v # vs) [ans]"
    by (simp add: set_child_def rq_def)
  show ?case
  proof (cases "unwrap PNone ans")
    case (Inl e)
    then have "snd (set_variables E sid (map PDict (v # vs)) tr0) = tr0 @ [Http rq ans]"
      by (simp add: set_variables_step [OF assms] Let_def rq_def ans_def)
    with one have "length [ans] \<le> length (v # vs)
       \<and> snd (set_variables E sid (map PDict (v # vs)) tr0) =
           tr0 @ map2 (set_child sid) (v # vs) [ans]"
      by simp
    then show ?thesis by blast
  next
    case (Inr v_res)
    from Cons.IH [of "tr0 @ [Http rq ans]"] obtain anss where
      a: "length anss \<le> length vs"
        "snd (set_variables E sid (map PDict vs) (tr0 @ [Http rq ans])) =
           (tr0 @ [Http rq ans]) @ map2 (set_child sid) vs anss"
      by blast
    have "length (ans # anss) \<le> length (v # vs)
       \<and> snd (set_variables E sid (map PDict (v # vs)) tr0) =
           tr0 @ map2 (set_child sid) (v # vs) (ans # anss)"
      using a Inr
      by (simp add: set_variables_step [OF assms] Let_def rq_def ans_def set_child_def)
    then show ?thesis by blast
  qed
qed

lemma set_trace:
  assumes c: "configured E" and v: "dict_get a ''variables'' (PList []) = PList (map PDict vs)"
    and prq: "prq = JsonRequest ''POST'' ''table/item_option_new_set'' (variable_set_data a)"
    and pans: "pans = remote E [] prq"
  shows "\<exists>anss. length anss \<le> length vs
      \<and> snd (create_variable_set E (PDict a) []) =
          Http prq pans # map2 (set_child (result_field ''sys_id'' pans)) vs anss"
proof -
  note run = create_variable_set_run [OF c v]
  have none: "snd (create_variable_set E (PDict a) []) = [Http prq pans] \<Longrightarrow> ?thesis"
  proof -
    assume "snd (create_variable_set E (PDict a) []) = [Http prq pans]"
    then have "length ([] :: answer list) \<le> length vs
        \<and> snd (create_variable_set E (PDict a) []) =
            Http prq pans # map2 (set_child (result_field ''sys_id'' pans)) vs []"
      by simp
    then show ?thesis by blast
  qed
  show ?thesis
  proof (cases "unwrap PNone pans")
    case (Inl e)
    then have "snd (create_variable_set E (PDict a) []) = [Http prq pans]"
      by (simp add: run Let_def prq pans)
    then show ?thesis by (rule none)
  next
    case u: (Inr vset)
    show ?thesis
    proof (cases "as_dict vset")
      case (Inl e)
      with u have "snd (create_variable_set E (PDict a) []) = [Http prq pans]"
        by (simp add: run Let_def prq pans)
      then show ?thesis by (rule none)
    next
      case d: (Inr s)
      from set_variables_prefix [OF c, of vs "get s ''sys_id''" "[Http prq pans]"]
      obtain anss where a: "length anss \<le> length vs"
        "snd (set_variables E (get s ''sys_id'') (map PDict vs) [Http prq pans]) =
           [Http prq pans] @ map2 (set_child (get s ''sys_id'')) vs anss"
        by blast
      have "snd (create_variable_set E (PDict a) []) =
          snd (set_variables E (get s ''sys_id'') (map PDict vs) [Http prq pans])"
        using u d by (simp add: run Let_def prq pans split: prod.splits sum.splits)
      with a result_field_unwrap [OF u d, of "''sys_id''"]
      have "length anss \<le> length vs
        \<and> snd (create_variable_set E (PDict a) []) =
            Http prq pans # map2 (set_child (result_field ''sys_id'' pans)) vs anss"
        by simp
      then show ?thesis by blast
    qed
  qed
qed



section \<open>\<^verbatim>\<open>smart_incident\<close>\<close>

subsection \<open>Splitting at the fences\<close>

declare split_from.simps(2) [simp del]

lemma split_from_first:
  assumes "sep \<noteq> []" and "hd sep \<notin> set pre"
  shows "split_from sep acc (pre @ sep @ rest) = (rev acc @ pre) # split_from sep [] rest"
  using assms(2)
proof (induction pre arbitrary: acc)
  case Nil
  from assms(1) obtain c cs where sep: "sep = c # cs" by (cases sep) auto
  show ?case by (simp add: sep split_from.simps(2))
next
  case (Cons x pre)
  from assms(1) obtain c cs where sep: "sep = c # cs" by (cases sep) auto
  from Cons.prems have "x \<noteq> c" and "hd sep \<notin> set pre" by (auto simp add: sep)
  with Cons.IH [of "x # acc"] show ?case by (simp add: sep split_from.simps(2))
qed

lemma split_from_none:
  assumes "sep \<noteq> []" and "hd sep \<notin> set s"
  shows "split_from sep acc s = [rev acc @ s]"
  using assms(2)
proof (induction s arbitrary: acc)
  case Nil
  show ?case by simp
next
  case (Cons x s)
  from assms(1) obtain c cs where sep: "sep = c # cs" by (cases sep) auto
  from Cons.prems have "x \<noteq> c" and "hd sep \<notin> set s" by (auto simp add: sep)
  with Cons.IH [of "x # acc"] show ?case by (simp add: sep split_from.simps(2))
qed

lemma contains_at: "contains sep (pre @ sep @ rest)"
proof (induction pre)
  case Nil
  have "prefix sep (sep @ rest)" by simp
  then show ?case by (cases "sep @ rest") auto
next
  case (Cons x pre)
  then show ?case by simp
qed

lemma split_nonempty: "split_from sep acc s \<noteq> []"
  by (induction sep acc s rule: split_from.induct) (simp_all add: split_from.simps(2))

lemma contains_pieces:
  "sep \<noteq> [] \<Longrightarrow> contains sep s \<Longrightarrow> 2 \<le> length (split_from sep acc s)"
proof (induction sep acc s rule: split_from.induct)
  case (1 sep acc)
  then show ?case by simp
next
  case (2 sep acc c cs)
  show ?case
  proof (cases "prefix sep (c # cs)")
    case True
    have "1 \<le> length (split_from sep [] (drop (length sep) (c # cs)))"
      using split_nonempty [of sep "[]" "drop (length sep) (c # cs)"]
      by (cases "split_from sep [] (drop (length sep) (c # cs))") simp_all
    with True 2 show ?thesis by (simp add: split_from.simps(2))
  next
    case False
    with 2 show ?thesis by (simp add: split_from.simps(2))
  qed
qed

lemma between_fences_total:
  assumes "opening \<noteq> []" and "contains opening s"
  shows "\<exists>t. between_fences opening s = Inr t"
proof -
  from contains_pieces [OF assms, of "[]"] have "1 < length (split s opening)"
    by (simp add: split_def)
  then obtain rest where r: "index (split s opening) 1 = Inr rest"
    by (simp add: index_def)
  have "0 < length (split rest fence)"
    using split_nonempty [of fence "[]" rest] by (simp add: split_def)
  then obtain b where "index (split rest fence) 0 = Inr b"
    by (simp add: index_def)
  with r show ?thesis by (simp add: between_fences_def)
qed

lemma extract_json_total: "\<exists>t. extract_json s = Inr t"
  using between_fences_total [of json_fence s] between_fences_total [of fence s]
  by (simp add: extract_json_def json_fence_def fence_def)

lemma fence_simps:
  "fence = [CHR 0x60, CHR 0x60, CHR 0x60]"
  "json_fence = [CHR 0x60, CHR 0x60, CHR 0x60] @ ''json''"
  by (simp_all add: fence_def json_fence_def numeral_3_eq_3)

text \<open>The pieces of a split, in terms of first occurrences.\<close>

lemma split_from_before_after:
  assumes "sep \<noteq> []"
  shows "split_from sep acc s =
     (rev acc @ before_first sep s)
     # (if contains sep s then split_from sep [] (after_first sep s) else [])"
proof (induction s arbitrary: acc)
  case Nil
  show ?case using assms by simp
next
  case (Cons c cs)
  show ?case
  proof (cases "prefix sep (c # cs)")
    case True
    then show ?thesis using assms by (simp add: split_from.simps(2))
  next
    case False
    with Cons [of "c # acc"] show ?thesis by (simp add: split_from.simps(2))
  qed
qed

lemma first_piece:
  "sep \<noteq> [] \<Longrightarrow> index (split s sep) 0 = Inr (before_first sep s)"
  by (simp add: split_def index_def split_from_before_after)

lemma second_piece:
  "sep \<noteq> [] \<Longrightarrow> contains sep s \<Longrightarrow>
   index (split s sep) 1 = Inr (before_first sep (after_first sep s))"
  by (simp add: split_def index_def split_from_before_after [of sep "[]" s]
      split_from_before_after [of sep "[]" "after_first sep s"])

lemma between_fences_eq:
  assumes "opening \<noteq> []" and "contains opening s"
  shows "between_fences opening s =
     Inr (strip (before_first fence (before_first opening (after_first opening s))))"
proof -
  have f: "fence \<noteq> []" by (simp add: fence_simps)
  from second_piece [OF assms] first_piece [OF f] show ?thesis
    by (simp add: between_fences_def)
qed

lemma prefix_before_first: "prefix (before_first sep s) s"
  by (induction s) simp_all

lemma before_first_none: "\<not> contains sep s \<Longrightarrow> before_first sep s = s"
  by (induction s) simp_all

lemma before_first_clean: "sep \<noteq> [] \<Longrightarrow> \<not> contains sep (before_first sep s)"
proof (induction s)
  case Nil
  then show ?case by simp
next
  case (Cons c cs)
  show ?case
  proof (cases "prefix sep (c # cs)")
    case True
    with Cons.prems show ?thesis by simp
  next
    case False
    have "\<not> prefix sep (c # before_first sep cs)"
    proof
      assume "prefix sep (c # before_first sep cs)"
      moreover have "prefix (c # before_first sep cs) (c # cs)"
        by (simp add: prefix_before_first)
      ultimately have "prefix sep (c # cs)" by (rule prefix_order.trans)
      with False show False by simp
    qed
    with False Cons show ?thesis by simp
  qed
qed

lemma extract_json_eq:
  "extract_json s =
     Inr (if contains json_fence s
          then strip (before_first fence (before_first json_fence (after_first json_fence s)))
          else if contains fence s then strip (before_first fence (after_first fence s))
          else s)"
proof -
  have f: "fence \<noteq> []" and j: "json_fence \<noteq> []" by (simp_all add: fence_simps)
  have "before_first fence (before_first fence t) = before_first fence t" for t
    using before_first_clean [OF f, of t] by (rule before_first_none)
  then show ?thesis
    by (simp add: extract_json_def between_fences_eq [OF j] between_fences_eq [OF f])
qed

text \<open>
  Where the first occurrence is: in \<open>b @ sep @ post\<close> it is the one written, as soon as
  none starts inside \<open>b\<close>.
\<close>

lemma prefix_take_eq: "prefix xs ys \<longleftrightarrow> take (length xs) ys = xs"
  by (metis append_eq_conv_conj prefix_def take_is_prefix)

lemma prefix_cut:
  assumes "prefix sep (p @ sep @ post)" and "p \<noteq> []"
  shows "prefix sep (p @ butlast sep)"
proof (cases "sep = []")
  case True
  then show ?thesis by simp
next
  case False
  then have "length sep - length p < length sep" using assms(2) by (cases p) simp_all
  then have "take (length sep - length p) (butlast sep) = take (length sep - length p) sep"
    by (rule take_butlast)
  with assms(1) show ?thesis by (simp add: prefix_take_eq)
qed

lemma first_at:
  assumes "sep \<noteq> []" and "\<not> contains sep (b @ butlast sep)"
  shows "before_first sep (b @ sep @ post) = b \<and> after_first sep (b @ sep @ post) = post"
  using assms(2)
proof (induction b)
  case Nil
  from assms(1) obtain c cs where sep: "sep = c # cs" by (cases sep) auto
  show ?case by (simp add: sep)
next
  case (Cons x b)
  from Cons.prems have 1: "\<not> prefix sep ((x # b) @ butlast sep)"
    and 2: "\<not> contains sep (b @ butlast sep)"
    by simp_all
  from 1 prefix_cut [of sep "x # b" post] have "\<not> prefix sep ((x # b) @ sep @ post)"
    by blast
  with Cons.IH [OF 2] show ?case by simp
qed

lemma contains_split: "contains sub s \<Longrightarrow> \<exists>p q. s = p @ sub @ q"
proof (induction s)
  case Nil
  then show ?case by simp
next
  case (Cons c cs)
  show ?case
  proof (cases "prefix sub (c # cs)")
    case True
    then obtain q where "c # cs = [] @ sub @ q" by (auto simp add: prefix_def)
    then show ?thesis by blast
  next
    case False
    with Cons obtain p q where "cs = p @ sub @ q" by auto
    then have "c # cs = (c # p) @ sub @ q" by simp
    then show ?thesis by blast
  qed
qed

text \<open>A closing fence that is the first one leaves no room for a second opening fence.\<close>

lemma no_json_fence_before_close:
  assumes "\<not> contains fence (body @ butlast fence)"
  shows "\<not> contains json_fence (body @ fence)"
proof
  assume "contains json_fence (body @ fence)"
  then obtain p q where e: "body @ fence = p @ json_fence @ q"
    using contains_split by blast
  then have "length (body @ fence) = length (p @ json_fence @ q)" by simp
  then have "length body + 3 = length p + 7 + length q"
    by (simp add: fence_simps)
  then have l: "length p + 3 \<le> length body" by simp
  from e have "take (length p + 3) (body @ fence) = p @ fence"
    by (simp add: fence_simps)
  with l have "take (length p + 3) body = p @ fence" by simp
  then have "body = (p @ fence) @ drop (length p + 3) body"
    by (metis append_take_drop_id)
  then have "body @ butlast fence = p @ fence @ (drop (length p + 3) body @ butlast fence)"
    by (metis append.assoc)
  then have "contains fence (body @ butlast fence)"
    by (metis contains_at)
  with assms show False by simp
qed

lemma fenced_content:
  assumes "s = json_fence @ body @ fence" and "\<not> contains fence (body @ butlast fence)"
  shows "extract_json s = Inr (strip body)"
proof -
  have j: "json_fence \<noteq> []" and f: "fence \<noteq> []" by (simp_all add: fence_simps)
  have c: "contains json_fence s"
    unfolding assms(1) using contains_at [of json_fence "[]" "body @ fence"] by simp
  have "\<not> contains json_fence ([] @ butlast json_fence)" by code_simp
  from first_at [OF j this, of "body @ fence"]
  have a: "after_first json_fence s = body @ fence" by (simp add: assms(1))
  have b: "before_first json_fence (body @ fence) = body @ fence"
    using no_json_fence_before_close [OF assms(2)] by (rule before_first_none)
  from first_at [OF f assms(2), of "[]"]
  have "before_first fence (body @ fence) = body" by simp
  with a b c show ?thesis by (simp add: extract_json_eq)
qed

lemma plain_fenced_content:
  assumes "s = fence @ body @ fence" and "\<not> contains json_fence s"
    and "\<not> contains fence (body @ butlast fence)"
  shows "extract_json s = Inr (strip body)"
proof -
  have f: "fence \<noteq> []" by (simp add: fence_simps)
  have c: "contains fence s"
    unfolding assms(1) using contains_at [of fence "[]" "body @ fence"] by simp
  have "\<not> contains fence ([] @ butlast fence)" by code_simp
  from first_at [OF f this, of "body @ fence"]
  have a: "after_first fence s = body @ fence" by (simp add: assms(1))
  from first_at [OF f assms(3), of "[]"]
  have "before_first fence (body @ fence) = body" by simp
  with a c assms(2) show ?thesis by (simp add: extract_json_eq)
qed

subsection \<open>The invocation\<close>

lemma smart_incident_run:
  assumes "model E = Some m" and "m [] (incident_prompt E a) = Inr (Inr raw)"
  shows "smart_incident E (PDict a) [] =
     try_except (smart_incident_try E (Inr raw)) (smart_incident_except (Inr raw))
       [Generate (incident_prompt E a) (Inr (Inr raw))]"
  using assms by (simp add: smart_incident_def generate_content_def bind_def lift_def Let_def)

lemma smart_incident_try_run:
  assumes "extract_json (strip raw) = Inr t"
  shows "smart_incident_try E (Inr raw) tr =
     (case json_loads E t of
        Inl e \<Rightarrow> (Inl e, tr)
      | Inr data \<Rightarrow>
          (case create_record E ''incident'' data tr of
             (Inl e, tr') \<Rightarrow> (Inl e, tr')
           | (Inr result, tr') \<Rightarrow>
               (case as_dict result of
                  Inl e \<Rightarrow> (Inl e, tr')
                | Inr r \<Rightarrow>
                    (Inr (''Smart Incident created: '' @ fstr E (get r ''number'') @ newline
                          @ ''Extracted Data: '' @ json_dumps E data), tr'))))"
  using assms
  by (simp add: smart_incident_try_def bind_def lift_def split: sum.splits prod.splits)

lemma smart_incident_except_run:
  "smart_incident_except (Inr raw) e tr =
     (Inr (''Failed to parse AI response: '' @ exn_msg e @ newline @ ''Raw Response: '' @ raw), tr)"
  by (simp add: smart_incident_except_def)

lemma invoke_smart_incident:
  assumes "model E = Some m" and "m [] (incident_prompt E a) = Inr (Inr raw)"
  shows "invoke E ''smart_incident'' (PDict a) =
     (case smart_incident_try E (Inr raw) [Generate (incident_prompt E a) (Inr (Inr raw))] of
        (Inl (Exn c msg), tr) \<Rightarrow>
          (Inr (''Failed to parse AI response: '' @ msg @ newline
                @ ''Raw Response: '' @ raw), tr)
      | (Inl (BaseExn c msg), tr) \<Rightarrow> (Inl (BaseExn c msg), tr)
      | (Inr t, tr) \<Rightarrow> (Inr t, tr))"
  by (simp add: invoke_run tool_body_def smart_incident_run [OF assms] try_except_def
      smart_incident_except_run split: prod.splits sum.splits exn.splits)




text \<open>
  Claim C10. Let the model answer with \<open>raw\<close> and the parser accept the extracted text as
  \<open>data\<close>. When the client is not configured, or the platform answers the POST of
  \<open>data\<close> with an error that derives from \<^verbatim>\<open>Exception\<close>, the invocation returns the text
  \<^verbatim>\<open>Failed to parse AI response:\<close> with the message of that error and the raw answer;
  the trace ends with the failed request and holds no log line, so the error did not go
  through the outer handler. An answer that derives from \<^verbatim>\<open>BaseException\<close> alone (a
  cancellation) is caught by neither handler and leaves the invocation.
\<close>

theorem smart_incident_remote_failure:
  assumes "model E = Some m" and "m [] (incident_prompt E a) = Inr (Inr raw)"
    and "extract_json (strip raw) = Inr t" and "json_loads E t = Inr data"
    and "g = Generate (incident_prompt E a) (Inr (Inr raw))"
    and "rq = JsonRequest ''POST'' ''table/incident'' data"
  shows "(\<not> configured E \<longrightarrow>
            invoke E ''smart_incident'' (PDict a) =
              (Inr (''Failed to parse AI response: ''
                    @ ''ServiceNow client not configured. Check environment variables.''
                    @ newline @ ''Raw Response: '' @ raw), [g]))
       \<and> (\<forall>c msg. configured E \<and> remote E [g] rq = Inl (Exn c msg) \<longrightarrow>
            invoke E ''smart_incident'' (PDict a) =
              (Inr (''Failed to parse AI response: '' @ msg
                    @ newline @ ''Raw Response: '' @ raw), [g, Http rq (Inl (Exn c msg))])
            \<and> log_lines (snd (invoke E ''smart_incident'' (PDict a))) = [])
       \<and> (\<forall>c msg. configured E \<and> remote E [g] rq = Inl (BaseExn c msg) \<longrightarrow>
            invoke E ''smart_incident'' (PDict a) =
              (Inl (BaseExn c msg), [g, Http rq (Inl (BaseExn c msg))]))"
proof (intro conjI allI impI)
  assume "\<not> configured E"
  then show "invoke E ''smart_incident'' (PDict a) =
              (Inr (''Failed to parse AI response: ''
                    @ ''ServiceNow client not configured. Check environment variables.''
                    @ newline @ ''Raw Response: '' @ raw), [g])"
    using assms(4,5)
    by (simp add: invoke_smart_incident [OF assms(1,2)] smart_incident_try_run [OF assms(3)]
        create_record_def client_request_def)
next
  fix c msg
  assume a: "configured E \<and> remote E [g] rq = Inl (Exn c msg)"
  then show i: "invoke E ''smart_incident'' (PDict a) =
              (Inr (''Failed to parse AI response: '' @ msg
                    @ newline @ ''Raw Response: '' @ raw), [g, Http rq (Inl (Exn c msg))])"
    using assms(4,5,6)
    by (simp add: invoke_smart_incident [OF assms(1,2)] smart_incident_try_run [OF assms(3)]
        create_record_def client_request_run unwrap_def)
  show "log_lines (snd (invoke E ''smart_incident'' (PDict a))) = []"
    unfolding i by (simp add: assms(5))
next
  fix c msg
  assume "configured E \<and> remote E [g] rq = Inl (BaseExn c msg)"
  then show "invoke E ''smart_incident'' (PDict a) =
              (Inl (BaseExn c msg), [g, Http rq (Inl (BaseExn c msg))])"
    using assms(4,5,6)
    by (simp add: invoke_smart_incident [OF assms(1,2)] smart_incident_try_run [OF assms(3)]
        create_record_def client_request_run unwrap_def)
qed

theorem smart_incident_remote_failure_witness:
  "invoke ((demo_env PNone ''{}'')
             \<lparr>remote := \<lambda>tr rq. Inl (Exn ''HTTPStatusError'' ''500 Internal Server Error'')\<rparr>)
     ''smart_incident'' (PDict [(''unstructured_text'', PStr ''vpn down'')]) =
   (Inr (''Failed to parse AI response: 500 Internal Server Error''
         @ newline @ ''Raw Response: {}''),
    [Generate (incident_prompt (demo_env PNone ''{}'') [(''unstructured_text'', PStr ''vpn down'')])
              (Inr (Inr ''{}'')),
     Http (JsonRequest ''POST'' ''table/incident'' (PDict []))
          (Inl (Exn ''HTTPStatusError'' ''500 Internal Server Error''))])
   \<and> invoke ((demo_env PNone ''{}'')\<lparr>configured := False\<rparr>)
     ''smart_incident'' (PDict [(''unstructured_text'', PStr ''vpn down'')]) =
   (Inr (''Failed to parse AI response: ''
         @ ''ServiceNow client not configured. Check environment variables.''
         @ newline @ ''Raw Response: {}''),
    [Generate (incident_prompt (demo_env PNone ''{}'') [(''unstructured_text'', PStr ''vpn down'')])
              (Inr (Inr ''{}''))])
   \<and> invoke ((demo_env PNone ''{}'')
             \<lparr>remote := \<lambda>tr rq. Inl (BaseExn ''CancelledError'' [])\<rparr>)
     ''smart_incident'' (PDict [(''unstructured_text'', PStr ''vpn down'')]) =
   (Inl (BaseExn ''CancelledError'' []),
    [Generate (incident_prompt (demo_env PNone ''{}'') [(''unstructured_text'', PStr ''vpn down'')])
              (Inr (Inr ''{}'')),
     Http (JsonRequest ''POST'' ''table/incident'' (PDict []))
          (Inl (BaseExn ''CancelledError'' []))])"
proof -
  let ?E = "(demo_env PNone ''{}'')
             \<lparr>remote := \<lambda>tr rq. Inl (Exn ''HTTPStatusError'' ''500 Internal Server Error'')\<rparr>"
  let ?C = "(demo_env PNone ''{}'')
             \<lparr>remote := \<lambda>tr rq. Inl (BaseExn ''CancelledError'' [])\<rparr>"
  let ?U = "(demo_env PNone ''{}'')\<lparr>configured := False\<rparr>"
  let ?a = "[(''unstructured_text'', PStr ''vpn down'')]"
  have x: "extract_json (strip ''{}'') = Inr ''{}''" by code_simp
  have p: "incident_prompt ?E ?a = incident_prompt (demo_env PNone ''{}'') ?a"
    "incident_prompt ?U ?a = incident_prompt (demo_env PNone ''{}'') ?a"
    "incident_prompt ?C ?a = incident_prompt (demo_env PNone ''{}'') ?a"
    by (simp_all add: incident_prompt_def fstr_def)
  have mE: "model ?E = Some (\<lambda>tr prompt. Inr (Inr ''{}''))"
    and mU: "model ?U = Some (\<lambda>tr prompt. Inr (Inr ''{}''))"
    and lE: "json_loads ?E ''{}'' = Inr (PDict [])"
    and lU: "json_loads ?U ''{}'' = Inr (PDict [])"
    and cE: "configured ?E" and cU: "\<not> configured ?U"
    and rE: "remote ?E tr rq = Inl (Exn ''HTTPStatusError'' ''500 Internal Server Error'')"
    and mC: "model ?C = Some (\<lambda>tr prompt. Inr (Inr ''{}''))"
    and lC: "json_loads ?C ''{}'' = Inr (PDict [])"
    and cC: "configured ?C"
    and rC: "remote ?C tr rq = Inl (BaseExn ''CancelledError'' [])"
    for tr rq
    by (simp_all add: demo_env_def demo_loads_def)
  have g: "(\<lambda>tr prompt. Inr (Inr ''{}'')) [] q = Inr (Inr ''{}'')" for q :: string
    by simp
  note tE = smart_incident_remote_failure [OF mE g x lE refl refl, of ?a]
  note tU = smart_incident_remote_failure [OF mU g x lU refl refl, of ?a]
  note tC = smart_incident_remote_failure [OF mC g x lC refl refl, of ?a]
  from tE cE rE
  have "invoke ?E ''smart_incident'' (PDict ?a) =
     (Inr (''Failed to parse AI response: ''
           @ ''500 Internal Server Error''
           @ newline @ ''Raw Response: '' @ ''{}''),
      [Generate (incident_prompt ?E ?a) (Inr (Inr ''{}'')),
       Http (JsonRequest ''POST'' ''table/incident'' (PDict []))
            (Inl (Exn ''HTTPStatusError'' ''500 Internal Server Error''))])"
    by blast
  then have 1: "invoke ?E ''smart_incident'' (PDict ?a) =
     (Inr (''Failed to parse AI response: 500 Internal Server Error''
           @ newline @ ''Raw Response: {}''),
      [Generate (incident_prompt (demo_env PNone ''{}'') ?a) (Inr (Inr ''{}'')),
       Http (JsonRequest ''POST'' ''table/incident'' (PDict []))
            (Inl (Exn ''HTTPStatusError'' ''500 Internal Server Error''))])"
    by (simp add: p)
  from tU cU
  have "invoke ?U ''smart_incident'' (PDict ?a) =
     (Inr (''Failed to parse AI response: ''
           @ ''ServiceNow client not configured. Check environment variables.''
           @ newline @ ''Raw Response: '' @ ''{}''),
      [Generate (incident_prompt ?U ?a) (Inr (Inr ''{}''))])"
    by blast
  then have 2: "invoke ?U ''smart_incident'' (PDict ?a) =
     (Inr (''Failed to parse AI response: ''
           @ ''ServiceNow client not configured. Check environment variables.''
           @ newline @ ''Raw Response: {}''),
      [Generate (incident_prompt (demo_env PNone ''{}'') ?a) (Inr (Inr ''{}''))])"
    by (simp add: p)
  from tC cC rC
  have "invoke ?C ''smart_incident'' (PDict ?a) =
     (Inl (BaseExn ''CancelledError'' []),
      [Generate (incident_prompt ?C ?a) (Inr (Inr ''{}'')),
       Http (JsonRequest ''POST'' ''table/incident'' (PDict []))
            (Inl (BaseExn ''CancelledError'' []))])"
    by blast
  then have 3: "invoke ?C ''smart_incident'' (PDict ?a) =
     (Inl (BaseExn ''CancelledError'' []),
      [Generate (incident_prompt (demo_env PNone ''{}'') ?a) (Inr (Inr ''{}'')),
       Http (JsonRequest ''POST'' ''table/incident'' (PDict []))
            (Inl (BaseExn ''CancelledError'' []))])"
    by (simp add: p)
  from 1 2 3 show ?thesis by (intro conjI)
qed

section \<open>The error boundary\<close>

subsection \<open>No tool writes to the log\<close>

lemma quiet_ret [intro!, simp]: "quiet (ret x)"
  by (simp add: quiet_def)

lemma quiet_raise [intro!, simp]: "quiet (raise e)"
  by (simp add: quiet_def)

lemma quiet_lift [intro!, simp]: "quiet (lift r)"
  by (simp add: quiet_def lift_def)

lemma quiet_bind [intro!]:
  assumes "quiet m" and "\<And>x. quiet (f x)"
  shows "quiet (bind m f)"
proof -
  have "log_lines (snd (bind m f tr)) = log_lines tr" for tr
  proof (cases "m tr")
    case (Pair r tr')
    from assms(1) have 1: "log_lines tr' = log_lines tr"
      unfolding quiet_def using Pair by (metis snd_conv)
    show ?thesis
    proof (cases r)
      case (Inl e)
      with Pair 1 show ?thesis by (simp add: bind_def)
    next
      case (Inr x)
      from assms(2) [of x] have "log_lines (snd (f x tr')) = log_lines tr'"
        by (simp add: quiet_def)
      with Pair Inr 1 show ?thesis by (simp add: bind_def)
    qed
  qed
  then show ?thesis by (simp add: quiet_def)
qed

lemma quiet_try_except [intro!]:
  assumes "quiet m" and "\<And>e. quiet (h e)"
  shows "quiet (try_except m h)"
proof -
  have "log_lines (snd (try_except m h tr)) = log_lines tr" for tr
  proof (cases "m tr")
    case (Pair r tr')
    from assms(1) have 1: "log_lines tr' = log_lines tr"
      unfolding quiet_def using Pair by (metis snd_conv)
    show ?thesis
    proof (cases r)
      case (Inr x)
      with Pair 1 show ?thesis by (simp add: try_except_def)
    next
      case (Inl e)
      from assms(2) [of e] have "log_lines (snd (h e tr')) = log_lines tr'"
        by (simp add: quiet_def)
      with Pair Inl 1 show ?thesis by (cases e) (simp_all add: try_except_def)
    qed
  qed
  then show ?thesis by (simp add: quiet_def)
qed

lemma quiet_client_request [intro!, simp]: "quiet (client_request E m p d)"
  by (simp add: quiet_def client_request_def Let_def)

lemma quiet_list_records [intro!, simp]: "quiet (list_records E table params)"
  by (simp add: quiet_def list_records_def Let_def)

lemma quiet_generate_content [intro!, simp]: "quiet (generate_content m prompt)"
  by (simp add: quiet_def generate_content_def Let_def)

lemma quiet_create_record [intro!, simp]: "quiet (create_record E table data)"
  by (simp add: create_record_def)

lemma quiet_producer_variables [intro!, simp]: "quiet (producer_variables E pid vars acc)"
proof (induction vars arbitrary: acc)
  case Nil
  show ?case by (simp add: quiet_def)
next
  case (Cons var vars)
  show ?case
    unfolding producer_variables.simps(2)
    by (intro quiet_bind quiet_lift quiet_create_record Cons.IH)
qed

lemma quiet_set_variables [intro!, simp]: "quiet (set_variables E sid vars)"
proof (induction vars)
  case Nil
  show ?case by (simp add: quiet_def)
next
  case (Cons var vars)
  show ?case
    unfolding set_variables.simps(2)
    by (intro quiet_bind quiet_lift quiet_create_record Cons.IH)
qed

lemma quiet_if: "quiet a \<Longrightarrow> quiet b \<Longrightarrow> quiet (if c then a else b)"
  by simp

lemma quiet_case_option:
  "quiet a \<Longrightarrow> (\<And>m. quiet (f m)) \<Longrightarrow> quiet (case x of None \<Rightarrow> a | Some m \<Rightarrow> f m)"
  by (cases x) simp_all

lemmas quiet_intros = quiet_bind quiet_try_except quiet_if quiet_case_option quiet_ret
  quiet_raise quiet_lift quiet_create_record quiet_client_request quiet_list_records
  quiet_generate_content quiet_producer_variables quiet_set_variables

lemma quiet_create_incident: "quiet (create_incident E arguments)"
  unfolding create_incident_def by (intro quiet_intros)

lemma quiet_create_kb_article: "quiet (create_kb_article E arguments)"
  unfolding create_kb_article_def by (intro quiet_intros)

lemma quiet_create_client_script: "quiet (create_client_script E arguments)"
  unfolding create_client_script_def by (intro quiet_intros)

lemma quiet_create_business_rule: "quiet (create_business_rule E arguments)"
  unfolding create_business_rule_def by (intro quiet_intros)

lemma quiet_create_sla_definition: "quiet (create_sla_definition E arguments)"
  unfolding create_sla_definition_def by (intro quiet_intros)

lemma quiet_create_record_producer: "quiet (create_record_producer E arguments)"
  unfolding create_record_producer_def by (intro quiet_intros)

lemma quiet_create_variable_set: "quiet (create_variable_set E arguments)"
  unfolding create_variable_set_def by (intro quiet_intros)

lemma quiet_get_incident: "quiet (get_incident E arguments)"
  unfolding get_incident_def get_record_def Let_def by (intro quiet_intros)

lemma quiet_update_incident: "quiet (update_incident E arguments)"
  unfolding update_incident_def update_record_def Let_def by (intro quiet_intros)

lemma quiet_list_incidents: "quiet (list_incidents E arguments)"
  unfolding list_incidents_def Let_def by (intro quiet_intros)

lemma quiet_smart_incident: "quiet (smart_incident E arguments)"
  unfolding smart_incident_def smart_incident_try_def smart_incident_except_def
  by (intro quiet_intros)

lemma quiet_smart_kb_generator: "quiet (smart_kb_generator E arguments)"
  unfolding smart_kb_generator_def Let_def by (intro quiet_intros)

lemma quiet_tool_body: "quiet (tool_body E name arguments)"
  unfolding tool_body_def
  by (intro quiet_if quiet_raise quiet_create_incident quiet_create_kb_article
      quiet_create_client_script quiet_create_business_rule quiet_create_sla_definition
      quiet_create_record_producer quiet_create_variable_set quiet_get_incident
      quiet_update_incident quiet_list_incidents quiet_smart_incident quiet_smart_kb_generator)

subsection \<open>A failed request ends the run\<close>

lemma strictI:
  assumes "\<And>tr r tr'. m tr = (r, tr') \<Longrightarrow>
     \<exists>new. tr' = tr @ new
       \<and> (\<forall>rq ans e. Http rq ans \<in> set new \<and> unwrap PNone ans = Inl e
             \<longrightarrow> r = Inl e \<and> last new = Http rq ans)"
  shows "strict m"
  using assms unfolding strict_def by blast

lemma strict_pure:
  assumes "\<And>tr. m tr = (r, tr)"
  shows "strict m"
proof (rule strictI)
  fix tr r' tr'
  assume "m tr = (r', tr')"
  with assms [of tr] have "tr' = tr @ []" by simp
  then show "\<exists>new. tr' = tr @ new
       \<and> (\<forall>rq ans e. Http rq ans \<in> set new \<and> unwrap PNone ans = Inl e
             \<longrightarrow> r' = Inl e \<and> last new = Http rq ans)"
    by (intro exI [of _ "[]"]) simp
qed

lemma strict_ret: "strict (ret x)"
  by (rule strict_pure [of _ "Inr x"]) simp

lemma strict_raise: "strict (raise e)"
  by (rule strict_pure [of _ "Inl e"]) simp

lemma strict_lift: "strict (lift r)"
  by (rule strict_pure [of _ r]) (simp add: lift_def)

lemma strict_generate_content: "strict (generate_content m prompt)"
proof (rule strictI)
  fix tr r tr'
  assume "generate_content m prompt tr = (r, tr')"
  then have "tr' = tr @ [Generate prompt (m tr prompt)]"
    by (auto simp add: generate_content_def Let_def)
  then show "\<exists>new. tr' = tr @ new
       \<and> (\<forall>rq ans e. Http rq ans \<in> set new \<and> unwrap PNone ans = Inl e
             \<longrightarrow> r = Inl e \<and> last new = Http rq ans)"
    by (intro exI [of _ "[Generate prompt (m tr prompt)]"]) simp
qed

lemma unwrap_Inl_any: "unwrap d ans = Inl e \<Longrightarrow> unwrap d' ans = Inl e"
  by (auto simp add: unwrap_def split: sum.splits)

lemma strict_client_request: "strict (client_request E m p d)"
proof (rule strictI)
  fix tr r tr'
  assume run: "client_request E m p d tr = (r, tr')"
  show "\<exists>new. tr' = tr @ new
       \<and> (\<forall>rq ans e. Http rq ans \<in> set new \<and> unwrap PNone ans = Inl e
             \<longrightarrow> r = Inl e \<and> last new = Http rq ans)"
  proof (cases "configured E")
    case False
    with run have "tr' = tr @ []" by (simp add: client_request_def)
    then show ?thesis by (intro exI [of _ "[]"]) simp
  next
    case True
    with run have "tr' = tr @ [Http (JsonRequest m p d) (remote E tr (JsonRequest m p d))]"
      and "r = unwrap PNone (remote E tr (JsonRequest m p d))"
      by (simp_all add: client_request_run)
    then show ?thesis
      by (intro exI [of _ "[Http (JsonRequest m p d) (remote E tr (JsonRequest m p d))]"])
        simp
  qed
qed

lemma strict_create_record: "strict (create_record E table data)"
  unfolding create_record_def by (rule strict_client_request)

lemma strict_list_records: "strict (list_records E table params)"
proof (rule strictI)
  fix tr r tr'
  assume run: "list_records E table params tr = (r, tr')"
  let ?rq = "ParamsRequest (''table/'' @ table) params"
  show "\<exists>new. tr' = tr @ new
       \<and> (\<forall>rq ans e. Http rq ans \<in> set new \<and> unwrap PNone ans = Inl e
             \<longrightarrow> r = Inl e \<and> last new = Http rq ans)"
  proof (cases "configured E")
    case False
    with run have "tr' = tr @ []" by (simp add: list_records_def)
    then show ?thesis by (intro exI [of _ "[]"]) simp
  next
    case True
    with run have "tr' = tr @ [Http ?rq (remote E tr ?rq)]"
      and "r = unwrap (PList []) (remote E tr ?rq)"
      by (simp_all add: list_records_run)
    then show ?thesis
      by (intro exI [of _ "[Http ?rq (remote E tr ?rq)]"])
        (auto dest: unwrap_Inl_any [of PNone _ _ "PList []"])
  qed
qed

lemma strict_bind:
  assumes m: "strict m" and f: "\<And>x. strict (f x)"
  shows "strict (bind m f)"
proof (rule strictI)
  fix tr r tr'
  assume run: "bind m f tr = (r, tr')"
  obtain r1 tr1 where m1: "m tr = (r1, tr1)" by (cases "m tr")
  from m m1 obtain new1 where n1: "tr1 = tr @ new1"
    and p1: "\<And>rq ans e. Http rq ans \<in> set new1 \<Longrightarrow> unwrap PNone ans = Inl e
               \<Longrightarrow> r1 = Inl e \<and> last new1 = Http rq ans"
    unfolding strict_def by blast
  show "\<exists>new. tr' = tr @ new
       \<and> (\<forall>rq ans e. Http rq ans \<in> set new \<and> unwrap PNone ans = Inl e
             \<longrightarrow> r = Inl e \<and> last new = Http rq ans)"
  proof (cases r1)
    case (Inl e1)
    with run m1 have r: "r = Inl e1" and t: "tr' = tr1" by (simp_all add: bind_def)
    have "r = Inl e \<and> last new1 = Http rq ans"
      if h: "Http rq ans \<in> set new1" and u: "unwrap PNone ans = Inl e" for rq ans e
      using p1 [OF h u] Inl r by simp
    then have "\<forall>rq ans e. Http rq ans \<in> set new1 \<and> unwrap PNone ans = Inl e
        \<longrightarrow> r = Inl e \<and> last new1 = Http rq ans"
      by blast
    moreover from n1 t have "tr' = tr @ new1" by simp
    ultimately show ?thesis by (intro exI [of _ new1] conjI)
  next
    case (Inr x)
    with run m1 have fx: "f x tr1 = (r, tr')" by (simp add: bind_def)
    from f [of x] fx obtain new2 where n2: "tr' = tr1 @ new2"
      and p2: "\<And>rq ans e. Http rq ans \<in> set new2 \<Longrightarrow> unwrap PNone ans = Inl e
                 \<Longrightarrow> r = Inl e \<and> last new2 = Http rq ans"
      unfolding strict_def by blast
    have "r = Inl e \<and> last (new1 @ new2) = Http rq ans"
      if h: "Http rq ans \<in> set (new1 @ new2)" and u: "unwrap PNone ans = Inl e" for rq ans e
    proof (cases "Http rq ans \<in> set new2")
      case True
      from True have "new2 \<noteq> []" by auto
      with p2 [OF True u] show ?thesis by simp
    next
      case False
      with h have "Http rq ans \<in> set new1" by simp
      from p1 [OF this u] Inr show ?thesis by simp
    qed
    then have "\<forall>rq ans e. Http rq ans \<in> set (new1 @ new2) \<and> unwrap PNone ans = Inl e
        \<longrightarrow> r = Inl e \<and> last (new1 @ new2) = Http rq ans"
      by blast
    moreover from n1 n2 have "tr' = tr @ new1 @ new2" by simp
    ultimately show ?thesis by (intro exI [of _ "new1 @ new2"] conjI)
  qed
qed

lemma strict_if: "strict a \<Longrightarrow> strict b \<Longrightarrow> strict (if c then a else b)"
  by simp

lemma strict_case_option:
  "strict a \<Longrightarrow> (\<And>m. strict (f m)) \<Longrightarrow> strict (case x of None \<Rightarrow> a | Some m \<Rightarrow> f m)"
  by (cases x) simp_all

lemma strict_producer_variables: "strict (producer_variables E pid vars acc)"
proof (induction vars arbitrary: acc)
  case Nil
  show ?case by (rule strict_pure [of _ "Inr acc"]) simp
next
  case (Cons var vars)
  show ?case
    unfolding producer_variables.simps(2)
    by (intro strict_bind strict_lift strict_create_record Cons.IH)
qed

lemma strict_set_variables: "strict (set_variables E sid vars)"
proof (induction vars)
  case Nil
  show ?case by (rule strict_pure [of _ "Inr ()"]) simp
next
  case (Cons var vars)
  show ?case
    unfolding set_variables.simps(2)
    by (intro strict_bind strict_lift strict_create_record Cons.IH)
qed

lemmas strict_intros = strict_bind strict_if strict_case_option strict_ret strict_raise
  strict_lift strict_create_record strict_client_request strict_list_records
  strict_generate_content strict_producer_variables strict_set_variables

lemma strict_tool_body:
  assumes "name \<noteq> ''smart_incident''"
  shows "strict (tool_body E name arguments)"
  using assms
  unfolding tool_body_def create_incident_def create_kb_article_def create_client_script_def
    create_business_rule_def create_sla_definition_def create_record_producer_def
    create_variable_set_def get_incident_def update_incident_def list_incidents_def
    smart_kb_generator_def get_record_def update_record_def Let_def
  by (simp only: if_False) (intro strict_intros)

subsection \<open>The boundary\<close>

lemma tool_body_unlogged: "tool_body E name arguments [] = (r, tr) \<Longrightarrow> log_lines tr = []"
  using quiet_tool_body [of E name arguments]
  unfolding quiet_def by (metis log_lines_simps(1) snd_conv)

lemma invoke_unconfigured:
  assumes "\<not> configured E"
    and "name \<in> set [''create_incident'', ''create_kb_article'', ''create_client_script'',
           ''create_business_rule'', ''create_sla_definition'', ''create_record_producer'',
           ''create_variable_set'', ''get_incident'', ''update_incident'', ''list_incidents'']"
  shows "invoke E name (PDict a) =
     (let msg = (if name = ''update_incident'' \<or> name = ''list_incidents''
                    \<or> (name = ''get_incident'' \<and> \<not> truthy (get a ''sys_id''))
                 then ''ServiceNow client not configured.''
                 else ''ServiceNow client not configured. Check environment variables.'')
      in (Inr (''Error: '' @ msg), [Log (''Error executing tool '' @ name @ '': '' @ msg)]))"
proof -
  from assms(2) have "name = ''create_incident'' \<or> name = ''create_kb_article''
      \<or> name = ''create_client_script'' \<or> name = ''create_business_rule''
      \<or> name = ''create_sla_definition'' \<or> name = ''create_record_producer''
      \<or> name = ''create_variable_set'' \<or> name = ''get_incident''
      \<or> name = ''update_incident'' \<or> name = ''list_incidents''"
    by simp
  then show ?thesis
  proof (elim disjE)
    assume "name = ''create_incident''"
    with assms(1) show ?thesis
      by (simp add: invoke_run tool_body_def create_incident_def create_record_def
          client_request_def bind_def lift_def Let_def)
  next
    assume "name = ''create_kb_article''"
    with assms(1) show ?thesis
      by (simp add: invoke_run tool_body_def create_kb_article_def create_record_def
          client_request_def bind_def lift_def Let_def)
  next
    assume "name = ''create_client_script''"
    with assms(1) show ?thesis
      by (simp add: invoke_run tool_body_def create_client_script_def create_record_def
          client_request_def bind_def lift_def Let_def)
  next
    assume "name = ''create_business_rule''"
    with assms(1) show ?thesis
      by (simp add: invoke_run tool_body_def create_business_rule_def create_record_def
          client_request_def bind_def lift_def Let_def)
  next
    assume "name = ''create_sla_definition''"
    with assms(1) show ?thesis
      by (simp add: invoke_run tool_body_def create_sla_definition_def create_record_def
          client_request_def bind_def lift_def Let_def)
  next
    assume "name = ''create_record_producer''"
    with assms(1) show ?thesis
      by (simp add: invoke_run tool_body_def create_record_producer_def create_record_def
          client_request_def bind_def lift_def Let_def)
  next
    assume "name = ''create_variable_set''"
    with assms(1) show ?thesis
      by (simp add: invoke_run tool_body_def create_variable_set_def create_record_def
          client_request_def bind_def lift_def Let_def)
  next
    assume "name = ''get_incident''"
    with assms(1) show ?thesis
      by (simp add: invoke_run tool_body_def get_incident_def get_record_def
          client_request_def list_records_def bind_def lift_def Let_def)
  next
    assume "name = ''update_incident''"
    with assms(1) show ?thesis
      by (simp add: invoke_run tool_body_def update_incident_def list_records_def
          bind_def lift_def Let_def)
  next
    assume "name = ''list_incidents''"
    with assms(1) show ?thesis
      by (simp add: invoke_run tool_body_def list_incidents_def list_records_def
          bind_def lift_def Let_def)
  qed
qed

lemma invoke_failed_request:
  assumes n: "name \<noteq> ''smart_incident''"
    and inv: "invoke E name arguments = (r, tr)"
    and h: "Http rq ans \<in> set tr"
    and u: "unwrap PNone ans = Inl e"
  shows "case e of
           Exn c msg \<Rightarrow>
             r = Inr (''Error: '' @ msg)
             \<and> log_lines tr = [''Error executing tool '' @ name @ '': '' @ msg]
             \<and> (\<exists>pre. tr = pre @ [Http rq ans,
                                    Log (''Error executing tool '' @ name @ '': '' @ msg)])
         | BaseExn c msg \<Rightarrow>
             r = Inl (BaseExn c msg) \<and> log_lines tr = []
             \<and> (\<exists>pre. tr = pre @ [Http rq ans])"
proof -
  obtain r0 tr0 where body: "tool_body E name arguments [] = (r0, tr0)"
    by (cases "tool_body E name arguments []")
  from strict_tool_body [OF n, of E arguments] body obtain new where "tr0 = [] @ new"
    and p: "\<And>rq ans e. Http rq ans \<in> set new \<Longrightarrow> unwrap PNone ans = Inl e
               \<Longrightarrow> r0 = Inl e \<and> last new = Http rq ans"
    unfolding strict_def by blast
  then have new: "new = tr0" by simp
  have q: "log_lines tr0 = []" by (rule tool_body_unlogged [OF body])
  from inv body h have h0: "Http rq ans \<in> set tr0"
    by (auto simp add: invoke_run split: sum.splits exn.splits)
  from p [of rq ans e] h0 u new have r0: "r0 = Inl e" and l: "last tr0 = Http rq ans"
    by simp_all
  from h0 have "tr0 \<noteq> []" by auto
  with l have tr0: "tr0 = butlast tr0 @ [Http rq ans]"
    by (metis append_butlast_last_id)
  show ?thesis
  proof (cases e)
    case (Exn c msg)
    with inv body r0 have r: "r = Inr (''Error: '' @ msg)"
      and t: "tr = tr0 @ [Log (''Error executing tool '' @ name @ '': '' @ msg)]"
      by (simp_all add: invoke_run)
    from t q have "log_lines tr = [''Error executing tool '' @ name @ '': '' @ msg]"
      by simp
    moreover from t tr0
    have "tr = butlast tr0 @ [Http rq ans,
                              Log (''Error executing tool '' @ name @ '': '' @ msg)]"
      by (metis append.assoc append_Cons append_Nil)
    ultimately show ?thesis using r Exn by auto
  next
    case (BaseExn c msg)
    with inv body r0 have r: "r = Inl (BaseExn c msg)" and t: "tr = tr0"
      by (simp_all add: invoke_run)
    with q tr0 BaseExn show ?thesis by auto
  qed
qed

lemma invoke_model_failure:
  assumes "model E = Some m" and "m [] (incident_prompt E a) = Inl (Exn c msg)"
  shows "invoke E ''smart_incident'' (PDict a) =
     (Inr (''Error: '' @ msg),
      [Generate (incident_prompt E a) (Inl (Exn c msg)),
       Log (''Error executing tool smart_incident: '' @ msg)])"
  using assms
  by (simp add: invoke_run tool_body_def smart_incident_def generate_content_def bind_def
      lift_def Let_def)

lemma invoke_unreadable_answer:
  assumes "model E = Some m" and "m [] (incident_prompt E a) = Inr (Inl (Exn c msg))"
  shows "invoke E ''smart_incident'' (PDict a) =
     (Inr (''Error: '' @ msg),
      [Generate (incident_prompt E a) (Inr (Inl (Exn c msg))),
       Log (''Error executing tool smart_incident: '' @ msg)])"
  using assms
  by (simp add: invoke_run tool_body_def smart_incident_def generate_content_def bind_def
      lift_def Let_def try_except_def smart_incident_try_def smart_incident_except_def)

lemma invoke_parse_failure:
  assumes "model E = Some m" and "m [] (incident_prompt E a) = Inr (Inr raw)"
    and "extract_json (strip raw) = Inr t" and "json_loads E t = Inl (Exn c msg)"
  shows "invoke E ''smart_incident'' (PDict a) =
     (Inr (''Failed to parse AI response: '' @ msg @ newline @ ''Raw Response: '' @ raw),
      [Generate (incident_prompt E a) (Inr (Inr raw))])"
  using assms(4)
  by (simp add: invoke_smart_incident [OF assms(1,2)] smart_incident_try_run [OF assms(3)])





end
